theory Spec2Isabelle
  imports Complex_Main "HOL-Library.Multiset"
begin

section \<open>Wire data of the robot API (bosdyn::api)\<close>

text \<open>
  The enumerations of the image protocol. Protocol buffer enumerations are open: a
  field may carry a number that has no name, which the last constructor of each
  type stands for.
\<close>

datatype Image_PixelFormat =
    PIXEL_FORMAT_UNKNOWN
  | PIXEL_FORMAT_GREYSCALE_U8
  | PIXEL_FORMAT_RGB_U8
  | PIXEL_FORMAT_RGBA_U8
  | PIXEL_FORMAT_DEPTH_U16
  | PIXEL_FORMAT_GREYSCALE_U16
  | PIXEL_FORMAT_UNNAMED int

datatype Image_Format =
    FORMAT_UNKNOWN
  | FORMAT_JPEG
  | FORMAT_RAW
  | FORMAT_RLE
  | FORMAT_UNNAMED int

text \<open>
  \<^verbatim>\<open>bosdyn::api::Image\<close>: dimensions, payload bytes, encoding and pixel format.
  Bytes are characters, as in the \<^verbatim>\<open>std::string\<close> that holds the payload.
  Dimensions are natural numbers: a negative dimension and the 32-bit wrap-around
  of rows * cols are outside the model.
\<close>

record Image =
  img_rows :: nat
  img_cols :: nat
  img_data :: string
  img_format :: Image_Format
  img_pixel_format :: Image_PixelFormat

text \<open>
  One edge of a transform snapshot: the parent frame's name and the pose of the
  child in the parent. The pose is carried, never inspected.
\<close>

record 'pose ParentEdge =
  parent_frame_name :: string
  parent_tform_child :: 'pose

text \<open>
  \<^verbatim>\<open>bosdyn::api::ImageCapture\<close>. Times are in nanoseconds. The snapshot's edge map is
  given as the sequence of (child frame, edge) pairs in the order in which the
  container hands them out when iterated.
\<close>

record 'pose ImageCapture =
  acquisition_time :: int
  transforms_snapshot :: "(string \<times> 'pose ParentEdge) list"
  frame_name_image_sensor :: string
  image :: Image

record PinholeIntrinsics =
  focal_length_x :: real
  focal_length_y :: real
  principal_point_x :: real
  principal_point_y :: real

record ImageSource =
  source_name :: string
  pinhole_intrinsics :: PinholeIntrinsics

record 'pose ImageResponse =
  shot :: "'pose ImageCapture"
  source :: ImageSource

section \<open>Results\<close>

text \<open>
  \<^verbatim>\<open>tl::expected<T, std::string>\<close> is \<open>Value\<close> or \<open>Unexpected\<close>. The third case
  is a call with no defined result: building a message copies as many bytes as
  the declared dimensions ask for from the address of the payload, and when the
  string that holds the payload, its terminator included, has fewer the copy
  runs past the end of the string.
\<close>

datatype 'a expected =
    Value 'a
  | Unexpected string
  | ReadPastPayload

section \<open>Pixel layouts of the image library\<close>

text \<open>
  The matrix type codes of the image library: depth code plus eight times
  (channels - 1). Depth code 0 is unsigned 8 bit, depth code 2 unsigned 16 bit.
\<close>

definition CV_8U :: int where "CV_8U = 0"
definition CV_16U :: int where "CV_16U = 2"

definition CV_MAKETYPE :: "int \<Rightarrow> int \<Rightarrow> int" where
  "CV_MAKETYPE depth cn = depth mod 8 + (cn - 1) * 8"

definition CV_8UC1 :: int where "CV_8UC1 = CV_MAKETYPE CV_8U 1"
definition CV_8UC3 :: int where "CV_8UC3 = CV_MAKETYPE CV_8U 3"
definition CV_8UC4 :: int where "CV_8UC4 = CV_MAKETYPE CV_8U 4"
definition CV_16UC1 :: int where "CV_16UC1 = CV_MAKETYPE CV_16U 1"

definition CV_MAT_DEPTH :: "int \<Rightarrow> int" where
  "CV_MAT_DEPTH t = t mod 8"

definition CV_MAT_CN :: "int \<Rightarrow> nat" where
  "CV_MAT_CN t = nat (t div 8 mod 512) + 1"

text \<open>Bits of one channel, by depth code (8U, 8S, 16U, 16S, 32S, 32F, 64F, 16F).\<close>

definition depth_bits :: "int \<Rightarrow> nat" where
  "depth_bits d =
     (if d = 0 \<or> d = 1 then 8
      else if d = 2 \<or> d = 3 \<or> d = 7 then 16
      else if d = 4 \<or> d = 5 then 32
      else 64)"

definition elemSize :: "int \<Rightarrow> nat" where
  "elemSize t = CV_MAT_CN t * (depth_bits (CV_MAT_DEPTH t) div 8)"

section \<open>getCvPixelFormat\<close>

fun getCvPixelFormat :: "Image_PixelFormat \<Rightarrow> int expected" where
  "getCvPixelFormat PIXEL_FORMAT_RGB_U8 = Value CV_8UC3"
| "getCvPixelFormat PIXEL_FORMAT_RGBA_U8 = Value CV_8UC4"
| "getCvPixelFormat PIXEL_FORMAT_GREYSCALE_U8 = Value CV_8UC1"
| "getCvPixelFormat PIXEL_FORMAT_GREYSCALE_U16 = Value CV_16UC1"
| "getCvPixelFormat PIXEL_FORMAT_DEPTH_U16 = Value CV_16UC1"
| "getCvPixelFormat _ = Unexpected ''Unknown pixel format.''"

text \<open>The five pixel formats that have a layout.\<close>

definition supported_pixel_formats :: "Image_PixelFormat set" where
  "supported_pixel_formats =
     {PIXEL_FORMAT_RGB_U8, PIXEL_FORMAT_RGBA_U8, PIXEL_FORMAT_GREYSCALE_U8,
      PIXEL_FORMAT_GREYSCALE_U16, PIXEL_FORMAT_DEPTH_U16}"

section \<open>Messages handed to the caller\<close>

record Header =
  stamp :: int
  frame_id :: string

text \<open>\<^verbatim>\<open>sensor_msgs::msg::Image\<close> (the byte-order flag of the host is left out).\<close>

record ImageMsg =
  msg_header :: Header
  msg_height :: nat
  msg_width :: nat
  msg_encoding :: string
  msg_step :: nat
  msg_data :: string

record CameraInfo =
  info_header :: Header
  info_height :: nat
  info_width :: nat
  info_distortion_model :: string
  info_d :: "real list"
  info_k :: "real list"
  info_r :: "real list"
  info_p :: "real list"

record 'pose TransformStamped =
  tf_header :: Header
  child_frame_id :: string
  transform :: 'pose

record ImageWithCameraInfo =
  iwc_image :: ImageMsg
  iwc_info :: CameraInfo

text \<open>
  \<^verbatim>\<open>GetImagesResult\<close>: the images by canonical source, and the transforms. The
  fields are \<^verbatim>\<open>images_\<close> and \<^verbatim>\<open>transforms_\<close> in the source.
\<close>

record ('src, 'pose) GetImagesResult =
  res_images :: "'src \<rightharpoonup> ImageWithCameraInfo"
  res_transforms :: "'pose TransformStamped list"

section \<open>Helpers declared outside the translated files\<close>

text \<open>
  Modelled from the spec: \<^verbatim>\<open>applyClockSkew\<close> is declared in the time-sync header,
  which is not among the sources. The spec gives it as "Correction is
  timestamp - skew when skew represents (robot - local)", with no rounding
  beyond the nanosecond, pure and total.
\<close>

definition applyClockSkew :: "int \<Rightarrow> int \<Rightarrow> int" where
  "applyClockSkew timestamp clock_skew = timestamp - clock_skew"

text \<open>
  Modelled from the spec: \<^verbatim>\<open>conversions::toTransformStamped\<close> is declared in the
  geometry conversions header, which is not among the sources. The spec's
  RigidTransform is "parent frame id, child frame id, timestamp, translation +
  rotation"; the arguments are stored as given, in the order of the call.
\<close>

definition toTransformStamped :: "'pose \<Rightarrow> string \<Rightarrow> string \<Rightarrow> int \<Rightarrow> 'pose TransformStamped" where
  "toTransformStamped tform parent_frame child_frame tf_time =
     \<lparr>tf_header = \<lparr>stamp = tf_time, frame_id = parent_frame\<rparr>,
      child_frame_id = child_frame,
      transform = tform\<rparr>"

section \<open>Matrices over a buffer\<close>

text \<open>
  A matrix header: dimensions, type code and data pointer. The pointer is
  \<open>None\<close> when null, and otherwise holds the bytes that lie between the address
  and the end of the buffer it points into.
\<close>

record Mat =
  mat_rows :: nat
  mat_cols :: nat
  mat_type :: int
  mat_data :: "string option"

text \<open>
  \<^verbatim>\<open>&data.front()\<close>: the address of the first byte of a \<^verbatim>\<open>std::string\<close>, never
  null. The string stores a terminating zero byte after its last character, and
  that byte is readable: from the address there are \<open>size() + 1\<close> bytes.
\<close>

definition address_of_front :: "string \<Rightarrow> string option" where
  "address_of_front data = Some (data @ [CHR 0x00])"

text \<open>
  \<^verbatim>\<open>cv::Mat(rows, cols, type, ptr)\<close> only fills in the header: nothing is
  allocated, copied or compared with the size of the buffer.
\<close>

definition Mat_over :: "nat \<Rightarrow> nat \<Rightarrow> int \<Rightarrow> string option \<Rightarrow> Mat" where
  "Mat_over r c t ptr = \<lparr>mat_rows = r, mat_cols = c, mat_type = t, mat_data = ptr\<rparr>"

text \<open>
  Reading the \<open>n\<close> bytes of a matrix through its data pointer. There is no
  defined result when the pointer is null or the buffer ends before \<open>n\<close> bytes.
  For a matrix over a payload string the buffer is the string with its
  terminator, so a read of one byte more than the payload ends in the zero byte.
\<close>

definition read_bytes :: "nat \<Rightarrow> string option \<Rightarrow> string option" where
  "read_bytes n ptr =
     (case ptr of
        None \<Rightarrow> None
      | Some bytes \<Rightarrow> if n \<le> length bytes then Some (take n bytes) else None)"

definition mat_size_bytes :: "Mat \<Rightarrow> nat" where
  "mat_size_bytes m = mat_cols m * elemSize (mat_type m) * mat_rows m"

text \<open>
  \<^verbatim>\<open>cv::imdecode(buf, IMREAD_COLOR)\<close>. The codec itself is a parameter: from the
  compressed bytes it gives either nothing (the library then returns an empty
  matrix, with a null data pointer) or the rows, columns and pixel bytes of the
  picture. With IMREAD_COLOR the decoded matrix always has three 8-bit channels.
\<close>

type_synonym codec = "string \<Rightarrow> (nat \<times> nat \<times> string) option"

definition imdecode :: "codec \<Rightarrow> Mat \<Rightarrow> Mat expected" where
  "imdecode decode buf =
     (case read_bytes (mat_size_bytes buf) (mat_data buf) of
        None \<Rightarrow> ReadPastPayload
      | Some compressed \<Rightarrow>
          (case decode compressed of
             None \<Rightarrow> Value (Mat_over 0 0 CV_8UC1 None)
           | Some (r, c, px) \<Rightarrow> Value (Mat_over r c CV_8UC3 (Some px))))"

text \<open>
  \<^verbatim>\<open>cv_bridge::CvImage{header, encoding, mat}.toImageMsg()\<close>: height and width from
  the matrix, the encoding as labelled by the caller, step = cols * elemSize, and
  step * rows bytes copied from the data pointer.
\<close>

definition CvImage_toImageMsg :: "Header \<Rightarrow> string \<Rightarrow> Mat \<Rightarrow> ImageMsg expected" where
  "CvImage_toImageMsg header encoding m =
     (case read_bytes (mat_size_bytes m) (mat_data m) of
        None \<Rightarrow> ReadPastPayload
      | Some bytes \<Rightarrow>
          Value \<lparr>msg_header = header,
                 msg_height = mat_rows m,
                 msg_width = mat_cols m,
                 msg_encoding = encoding,
                 msg_step = mat_cols m * elemSize (mat_type m),
                 msg_data = bytes\<rparr>)"

definition TYPE_16UC1 :: string where
  "TYPE_16UC1 = ''16UC1''"

definition PLUMB_BOB :: string where
  "PLUMB_BOB = ''plumb_bob''"

section \<open>The image client\<close>

definition kExcludedStaticTfFrames :: "string set" where
  "kExcludedStaticTfFrames = {''body'', ''odom'', ''vision'', ''arm0.link_wr1''}"

text \<open>The frame identifier of a message: the sensor frame under the robot's name.\<close>

definition sensor_frame_id :: "string \<Rightarrow> string \<Rightarrow> string" where
  "sensor_frame_id robot_name frame = (if robot_name = [] then [] else robot_name @ ''/'') @ frame"

definition toCameraInfoMsg :: "'pose ImageResponse \<Rightarrow> string \<Rightarrow> int \<Rightarrow> CameraInfo expected" where
  "toCameraInfoMsg image_response robot_name clock_skew =
     (let intrinsics = pinhole_intrinsics (source image_response) in
      Value
        \<lparr>info_header =
           \<lparr>stamp = applyClockSkew (acquisition_time (shot image_response)) clock_skew,
            frame_id = sensor_frame_id robot_name (frame_name_image_sensor (shot image_response))\<rparr>,
         info_height = img_rows (image (shot image_response)),
         info_width = img_cols (image (shot image_response)),
         info_distortion_model = PLUMB_BOB,
         info_d = [0, 0, 0, 0, 0],
         info_k = [focal_length_x intrinsics, 0, principal_point_x intrinsics,
                   0, focal_length_y intrinsics, principal_point_y intrinsics,
                   0, 0, 1],
         info_r = [1, 0, 0,
                   0, 1, 0,
                   0, 0, 1],
         info_p = [focal_length_x intrinsics, 0, principal_point_x intrinsics, 0,
                   0, focal_length_y intrinsics, principal_point_y intrinsics, 0,
                   0, 0, 1, 0]\<rparr>)"

definition toImageMsg :: "codec \<Rightarrow> 'pose ImageCapture \<Rightarrow> string \<Rightarrow> int \<Rightarrow> ImageMsg expected" where
  "toImageMsg decode image_capture robot_name clock_skew =
     (let img = image image_capture;
          data = img_data img;
          header = \<lparr>stamp = applyClockSkew (acquisition_time image_capture) clock_skew,
                    frame_id = sensor_frame_id robot_name (frame_name_image_sensor image_capture)\<rparr>
      in case getCvPixelFormat (img_pixel_format img) of
           Unexpected e \<Rightarrow> Unexpected (''Failed to determine pixel format: '' @ e)
         | ReadPastPayload \<Rightarrow> ReadPastPayload
         | Value pixel_format_cv \<Rightarrow>
             if img_format img = FORMAT_JPEG then
               (case imdecode decode
                       (Mat_over 1 (img_rows img * img_cols img) CV_8UC1 (address_of_front data)) of
                  Unexpected e \<Rightarrow> Unexpected e
                | ReadPastPayload \<Rightarrow> ReadPastPayload
                | Value img_bgr \<Rightarrow>
                    if mat_data img_bgr = None
                    then Unexpected ''Failed to decode JPEG-compressed image.''
                    else CvImage_toImageMsg header ''bgr8'' img_bgr)
             else if img_format img = FORMAT_RAW then
               (let m = Mat_over (img_rows img) (img_cols img) pixel_format_cv
                          (address_of_front data)
                in if mat_data m = None
                   then Unexpected ''Failed to decode raw-formatted image.''
                   else CvImage_toImageMsg header TYPE_16UC1 m)
             else if img_format img = FORMAT_RLE then
               Unexpected ''Conversion from FORMAT_RLE is not yet implemented.''
             else Unexpected ''Unknown image format.'')"

text \<open>
  The loop of getImageTransforms over the edge map, in iteration order; \<open>out\<close> is
  the vector built so far.
\<close>

fun image_transforms_loop ::
  "string \<Rightarrow> int \<Rightarrow> int \<Rightarrow> (string \<times> 'pose ParentEdge) list \<Rightarrow>
   'pose TransformStamped list \<Rightarrow> 'pose TransformStamped list" where
  "image_transforms_loop robot_name acq clock_skew [] out = out"
| "image_transforms_loop robot_name acq clock_skew ((child, edge) # rest) out =
     (if child \<in> kExcludedStaticTfFrames
      then image_transforms_loop robot_name acq clock_skew rest out
      else
        (let parent_frame_id =
               (if parent_frame_name edge = ''arm0.link_wr1'' then ''link_wr1''
                else parent_frame_name edge);
             tform_msg =
               toTransformStamped (parent_tform_child edge)
                 (if robot_name = [] then parent_frame_id else robot_name @ ''/'' @ parent_frame_id)
                 (if robot_name = [] then child else robot_name @ ''/'' @ child)
                 (applyClockSkew acq clock_skew)
         in image_transforms_loop robot_name acq clock_skew rest (out @ [tform_msg])))"

definition getImageTransforms ::
  "'pose ImageResponse \<Rightarrow> string \<Rightarrow> int \<Rightarrow> 'pose TransformStamped list expected" where
  "getImageTransforms image_response robot_name clock_skew =
     Value (image_transforms_loop robot_name (acquisition_time (shot image_response)) clock_skew
              (transforms_snapshot (shot image_response)) [])"

text \<open>\<^verbatim>\<open>std::map::try_emplace\<close>: inserts only when the key is absent.\<close>

definition try_emplace :: "('k \<rightharpoonup> 'v) \<Rightarrow> 'k \<Rightarrow> 'v \<Rightarrow> ('k \<rightharpoonup> 'v)" where
  "try_emplace m k v = (case m k of None \<Rightarrow> m(k \<mapsto> v) | Some _ \<Rightarrow> m)"

text \<open>
  The loop of getImages over the image responses. The registry of source names
  (\<^verbatim>\<open>fromSpotImageSourceName\<close>, declared with the image sources) is a parameter.
\<close>

fun getImages_loop ::
  "codec \<Rightarrow> (string \<Rightarrow> 'src expected) \<Rightarrow> string \<Rightarrow> int \<Rightarrow> 'pose ImageResponse list \<Rightarrow>
   ('src, 'pose) GetImagesResult \<Rightarrow> ('src, 'pose) GetImagesResult expected" where
  "getImages_loop decode fromSpotImageSourceName robot_name clock_skew [] out = Value out"
| "getImages_loop decode fromSpotImageSourceName robot_name clock_skew (image_response # rest) out =
     (case toImageMsg decode (shot image_response) robot_name clock_skew of
        Unexpected e \<Rightarrow>
          Unexpected (''Failed to convert SDK image response to ROS Image message: '' @ e)
      | ReadPastPayload \<Rightarrow> ReadPastPayload
      | Value image_msg \<Rightarrow>
          (case toCameraInfoMsg image_response robot_name clock_skew of
             Unexpected e \<Rightarrow>
               Unexpected (''Failed to convert SDK image response to ROS CameraInfo message: '' @ e)
           | ReadPastPayload \<Rightarrow> ReadPastPayload
           | Value info_msg \<Rightarrow>
               (case fromSpotImageSourceName (source_name (source image_response)) of
                  Unexpected e \<Rightarrow>
                    Unexpected (''Failed to convert API image source name to ImageSource: '' @ e)
                | ReadPastPayload \<Rightarrow> ReadPastPayload
                | Value src \<Rightarrow>
                    (let out1 = out\<lparr>res_images :=
                                  try_emplace (res_images out) src
                                    \<lparr>iwc_image = image_msg, iwc_info = info_msg\<rparr>\<rparr>
                     in case getImageTransforms image_response robot_name clock_skew of
                          Unexpected e \<Rightarrow> Unexpected (''Failed to get image transforms: '' @ e)
                        | ReadPastPayload \<Rightarrow> ReadPastPayload
                        | Value tfs \<Rightarrow>
                            getImages_loop decode fromSpotImageSourceName robot_name clock_skew rest
                              (out1\<lparr>res_transforms := res_transforms out1 @ tfs\<rparr>)))))"

text \<open>
  getImages. The result of the image request is \<open>Inl\<close> of the status text when
  the request failed and \<open>Inr\<close> of the image responses otherwise; the clock skew
  is the result of asking the time-sync service once.
\<close>

definition getImages ::
  "codec \<Rightarrow> (string \<Rightarrow> 'src expected) \<Rightarrow> string \<Rightarrow> string + 'pose ImageResponse list \<Rightarrow>
   int expected \<Rightarrow> ('src, 'pose) GetImagesResult expected" where
  "getImages decode fromSpotImageSourceName robot_name get_image_result clock_skew_result =
     (case get_image_result of
        Inl status \<Rightarrow> Unexpected (''Failed to get images: '' @ status)
      | Inr image_responses \<Rightarrow>
          (case clock_skew_result of
             Unexpected e \<Rightarrow> Unexpected (''Failed to get latest clock skew: '' @ e)
           | ReadPastPayload \<Rightarrow> ReadPastPayload
           | Value clock_skew \<Rightarrow>
               getImages_loop decode fromSpotImageSourceName robot_name clock_skew image_responses
                 \<lparr>res_images = Map.empty, res_transforms = []\<rparr>))"

text \<open>\<^verbatim>\<open>expected.has_value()\<close>.\<close>

fun has_value :: "'a expected \<Rightarrow> bool" where
  "has_value (Value _) = True"
| "has_value _ = False"

section \<open>The kinematic service\<close>

text \<open>
  Response messages live in a store, and a \<^verbatim>\<open>std::shared_ptr\<close> to one is its
  address, an index into the store. A cell is \<open>None\<close> once its message has been
  destroyed.
\<close>

record 'resp ServiceState =
  heap :: "'resp option list"
  logged :: "string list"

definition deref :: "'resp ServiceState \<Rightarrow> nat \<Rightarrow> 'resp option" where
  "deref st p = (if p < length (heap st) then heap st ! p else None)"

text \<open>A new message at a fresh address, as the converter's \<^verbatim>\<open>make_shared\<close> does.\<close>

definition make_shared :: "'resp \<Rightarrow> 'resp ServiceState \<Rightarrow> nat \<times> 'resp ServiceState" where
  "make_shared v st = (length (heap st), st\<lparr>heap := heap st @ [Some v]\<rparr>)"

text \<open>The last pointer to a message goes out of scope: the message is destroyed.\<close>

definition release :: "nat \<Rightarrow> 'resp ServiceState \<Rightarrow> 'resp ServiceState" where
  "release p st = st\<lparr>heap := (heap st)[p := None]\<rparr>"

datatype callback_exit =
    Returned
  | Threw_bad_expected_access

text \<open>
  \<^verbatim>\<open>KinematicService::service_callback_\<close>. The request converter, the kinematic
  interface and the response converter are parameters. \<open>response\<close> is the address
  the caller passed; the parameter is a copy of the caller's pointer, so
  assigning to it moves only the copy, which dies with the call and takes the
  new message with it. \<^verbatim>\<open>expected.value()\<close> throws when there is no value.
\<close>

definition service_callback ::
  "('req \<Rightarrow> 'preq) \<Rightarrow> ('preq \<Rightarrow> 'presp expected) \<Rightarrow> ('presp \<Rightarrow> 'resp) \<Rightarrow>
   'resp ServiceState \<Rightarrow> 'req \<Rightarrow> nat \<Rightarrow> 'resp ServiceState \<times> callback_exit" where
  "service_callback convert_request get_solutions convert_response st request response =
     (let proto_request = convert_request request;
          expected = get_solutions proto_request;
          st1 = (case expected of
                   Unexpected e \<Rightarrow>
                     st\<lparr>logged := logged st @
                        [''Error searching for an InverseKinematic solution: '' @ e]\<rparr>
                 | _ \<Rightarrow> st)
      in case expected of
           Value v \<Rightarrow>
             (let (fresh, st2) = make_shared (convert_response v) st1;
                  response' = fresh
              in (release response' st2, Returned))
         | _ \<Rightarrow> (st1, Threw_bad_expected_access))"

section \<open>Names for stating the properties\<close>

text \<open>
  The two frame-name expressions of getImageTransforms, named: a frame under the
  robot's name, and the parent frame after the wrist-link rename.
\<close>

definition namespaced :: "string \<Rightarrow> string \<Rightarrow> string" where
  "namespaced robot_name frame = (if robot_name = [] then frame else robot_name @ ''/'' @ frame)"

definition external_parent :: "string \<Rightarrow> string" where
  "external_parent parent = (if parent = ''arm0.link_wr1'' then ''link_wr1'' else parent)"

text \<open>The message getImageTransforms emits for one edge of a snapshot taken at \<open>acq\<close>.\<close>

definition emitted ::
  "string \<Rightarrow> int \<Rightarrow> int \<Rightarrow> string \<times> 'pose ParentEdge \<Rightarrow> 'pose TransformStamped" where
  "emitted robot_name acq clock_skew ce =
     toTransformStamped (parent_tform_child (snd ce))
       (namespaced robot_name (external_parent (parent_frame_name (snd ce))))
       (namespaced robot_name (fst ce))
       (applyClockSkew acq clock_skew)"

text \<open>The transforms getImageTransforms emits for one response.\<close>

definition transforms_of :: "string \<Rightarrow> int \<Rightarrow> 'pose ImageResponse \<Rightarrow> 'pose TransformStamped list" where
  "transforms_of rn sk r =
     map (emitted rn (acquisition_time (shot r)) sk)
       (filter (\<lambda>ce. fst ce \<notin> kExcludedStaticTfFrames) (transforms_snapshot (shot r)))"

text \<open>
  Every time stamp of a result is the acquisition time of one of the responses
  in \<open>S\<close>, corrected by the clock skew; an image is stored under the canonical
  name of the response it came from.
\<close>

definition stamps_corrected ::
  "(string \<Rightarrow> 'src expected) \<Rightarrow> int \<Rightarrow> 'pose ImageResponse set \<Rightarrow> ('src, 'pose) GetImagesResult \<Rightarrow> bool" where
  "stamps_corrected f sk S out \<longleftrightarrow>
     (\<forall>k iwc. res_images out k = Some iwc \<longrightarrow>
        (\<exists>r\<in>S. f (source_name (source r)) = Value k
           \<and> stamp (msg_header (iwc_image iwc)) = applyClockSkew (acquisition_time (shot r)) sk
           \<and> stamp (info_header (iwc_info iwc)) = applyClockSkew (acquisition_time (shot r)) sk))
     \<and> (\<forall>tf\<in>set (res_transforms out).
          \<exists>r\<in>S. stamp (tf_header tf) = applyClockSkew (acquisition_time (shot r)) sk)"

section \<open>Sample data\<close>

text \<open>A codec that decodes nothing, and one that decodes every buffer to one pixel.\<close>

definition no_codec :: codec where
  "no_codec buf = None"

definition one_pixel_codec :: codec where
  "one_pixel_codec buf = Some (1, 1, ''BGR'')"

text \<open>A registry of two source names, for the registry parameter.\<close>

definition sample_registry :: "string \<Rightarrow> nat expected" where
  "sample_registry name =
     (if name = ''frontleft_depth'' then Value 0
      else if name = ''hand_color_image'' then Value 1
      else Unexpected (''Unknown source '' @ name))"

definition sample_intrinsics :: PinholeIntrinsics where
  "sample_intrinsics =
     \<lparr>focal_length_x = 2, focal_length_y = 3, principal_point_x = 4, principal_point_y = 5\<rparr>"

definition sample_image :: "Image_Format \<Rightarrow> Image_PixelFormat \<Rightarrow> nat \<Rightarrow> nat \<Rightarrow> string \<Rightarrow> Image" where
  "sample_image fmt pf r c bytes =
     \<lparr>img_rows = r, img_cols = c, img_data = bytes, img_format = fmt, img_pixel_format = pf\<rparr>"

definition sample_capture :: "Image \<Rightarrow> (string \<times> nat ParentEdge) list \<Rightarrow> nat ImageCapture" where
  "sample_capture img edges =
     \<lparr>acquisition_time = 1000, transforms_snapshot = edges,
      frame_name_image_sensor = ''cam'', image = img\<rparr>"

definition sample_response ::
  "string \<Rightarrow> Image \<Rightarrow> (string \<times> nat ParentEdge) list \<Rightarrow> nat ImageResponse" where
  "sample_response name img edges =
     \<lparr>shot = sample_capture img edges,
      source = \<lparr>source_name = name, pinhole_intrinsics = sample_intrinsics\<rparr>\<rparr>"

definition edge :: "string \<Rightarrow> nat \<Rightarrow> nat ParentEdge" where
  "edge parent pose = \<lparr>parent_frame_name = parent, parent_tform_child = pose\<rparr>"

text \<open>A 1 x 1 raw depth image with its two bytes, and the same with one byte missing.\<close>

definition depth_1x1 :: Image where
  "depth_1x1 = sample_image FORMAT_RAW PIXEL_FORMAT_DEPTH_U16 1 1 ''AB''"

definition depth_1x1_short :: Image where
  "depth_1x1_short = sample_image FORMAT_RAW PIXEL_FORMAT_DEPTH_U16 1 1 ''A''"

definition depth_1x1_empty :: Image where
  "depth_1x1_empty = sample_image FORMAT_RAW PIXEL_FORMAT_DEPTH_U16 1 1 []"

text \<open>A 1 x 1 raw RGB image with its three bytes.\<close>

definition rgb_1x1 :: Image where
  "rgb_1x1 = sample_image FORMAT_RAW PIXEL_FORMAT_RGB_U8 1 1 ''RGB''"

text \<open>A JPEG entry of four compressed bytes, declared as 1 x 4.\<close>

definition jpeg_4 :: "Image_PixelFormat \<Rightarrow> Image" where
  "jpeg_4 pf = sample_image FORMAT_JPEG pf 1 4 ''JPEG''"

text \<open>A snapshot as a hand camera reports it, in two iteration orders.\<close>

definition hand_edges :: "(string \<times> nat ParentEdge) list" where
  "hand_edges =
     [(''odom'', edge ''vision'' 1),
      (''hand_color_image_sensor'', edge ''arm0.link_wr1'' 2),
      (''arm0.link_wr1'', edge ''body'' 3),
      (''body'', edge ''odom'' 4),
      (''head'', edge ''body'' 5)]"

definition hand_edges_other_order :: "(string \<times> nat ParentEdge) list" where
  "hand_edges_other_order =
     [(''head'', edge ''body'' 5),
      (''body'', edge ''odom'' 4),
      (''arm0.link_wr1'', edge ''body'' 3),
      (''hand_color_image_sensor'', edge ''arm0.link_wr1'' 2),
      (''odom'', edge ''vision'' 1)]"

text \<open>Another 1 x 1 raw depth image, and two entries with the same source name.\<close>

definition depth_1x1_other :: Image where
  "depth_1x1_other = sample_image FORMAT_RAW PIXEL_FORMAT_DEPTH_U16 1 1 ''CD''"

definition dup_first :: "nat ImageResponse" where
  "dup_first = sample_response ''hand_color_image'' depth_1x1 [(''head'', edge ''body'' 5)]"

definition dup_second :: "nat ImageResponse" where
  "dup_second = sample_response ''hand_color_image'' depth_1x1_other [(''tail'', edge ''body'' 6)]"

text \<open>A 2 x 1 raw 8-bit greyscale image with its two bytes.\<close>

definition grey_2x1 :: Image where
  "grey_2x1 = sample_image FORMAT_RAW PIXEL_FORMAT_GREYSCALE_U8 2 1 ''GH''"

text \<open>A store with one response message, and two kinematic interfaces.\<close>

definition sample_store :: "nat ServiceState" where
  "sample_store = \<lparr>heap = [Some 7], logged = []\<rparr>"

definition solver_ok :: "nat \<Rightarrow> nat expected" where
  "solver_ok q = Value (q + 1)"

definition solver_fails :: "nat \<Rightarrow> nat expected" where
  "solver_fails q = Unexpected ''no solution''"

section \<open>Proofs\<close>

lemma type_code_values:
  "CV_8UC1 = 0" "CV_8UC3 = 16" "CV_8UC4 = 24" "CV_16UC1 = 2"
  by (simp_all add: CV_8UC1_def CV_8UC3_def CV_8UC4_def CV_16UC1_def CV_MAKETYPE_def
      CV_8U_def CV_16U_def)

lemma layout_of_type_codes:
  "CV_MAT_CN CV_8UC1 = 1" "depth_bits (CV_MAT_DEPTH CV_8UC1) = 8"
  "CV_MAT_CN CV_8UC3 = 3" "depth_bits (CV_MAT_DEPTH CV_8UC3) = 8"
  "CV_MAT_CN CV_8UC4 = 4" "depth_bits (CV_MAT_DEPTH CV_8UC4) = 8"
  "CV_MAT_CN CV_16UC1 = 1" "depth_bits (CV_MAT_DEPTH CV_16UC1) = 16"
  by (simp_all add: type_code_values CV_MAT_CN_def CV_MAT_DEPTH_def depth_bits_def)

lemma elemSize_values:
  "elemSize CV_8UC1 = 1" "elemSize CV_8UC3 = 3" "elemSize CV_8UC4 = 4" "elemSize CV_16UC1 = 2"
  by (simp_all add: elemSize_def layout_of_type_codes)

lemma getCvPixelFormat_unsupported:
  "f \<notin> supported_pixel_formats \<Longrightarrow> getCvPixelFormat f = Unexpected ''Unknown pixel format.''"
  by (cases f) (simp_all add: supported_pixel_formats_def)

lemma getCvPixelFormat_supported:
  "f \<in> supported_pixel_formats \<Longrightarrow> \<exists>t. getCvPixelFormat f = Value t \<and> 0 < elemSize t"
  by (auto simp: supported_pixel_formats_def elemSize_values)

text \<open>
  C7. getCvPixelFormat gives RGB-8U three channels of 8 bits, RGBA-8U four
  channels of 8 bits, Grayscale-8U one channel of 8 bits, Grayscale-16U and
  Depth-16U one channel of 16 bits; every other pixel-format value, named or
  not, gives the error "Unknown pixel format." and no layout.
\<close>

theorem C7_pixel_format_table:
  "(\<exists>t. getCvPixelFormat PIXEL_FORMAT_RGB_U8 = Value t \<and> CV_MAT_CN t = 3
        \<and> depth_bits (CV_MAT_DEPTH t) = 8)
   \<and> (\<exists>t. getCvPixelFormat PIXEL_FORMAT_RGBA_U8 = Value t \<and> CV_MAT_CN t = 4
        \<and> depth_bits (CV_MAT_DEPTH t) = 8)
   \<and> (\<exists>t. getCvPixelFormat PIXEL_FORMAT_GREYSCALE_U8 = Value t \<and> CV_MAT_CN t = 1
        \<and> depth_bits (CV_MAT_DEPTH t) = 8)
   \<and> (\<exists>t. getCvPixelFormat PIXEL_FORMAT_GREYSCALE_U16 = Value t \<and> CV_MAT_CN t = 1
        \<and> depth_bits (CV_MAT_DEPTH t) = 16)
   \<and> (\<exists>t. getCvPixelFormat PIXEL_FORMAT_DEPTH_U16 = Value t \<and> CV_MAT_CN t = 1
        \<and> depth_bits (CV_MAT_DEPTH t) = 16)
   \<and> (\<forall>f. f \<notin> supported_pixel_formats \<longrightarrow>
          getCvPixelFormat f = Unexpected ''Unknown pixel format.'')"
  by (simp add: layout_of_type_codes getCvPixelFormat_unsupported)

theorem C7_pixel_format_table_witness:
  "PIXEL_FORMAT_UNKNOWN \<notin> supported_pixel_formats
   \<and> PIXEL_FORMAT_UNNAMED 7 \<notin> supported_pixel_formats
   \<and> getCvPixelFormat PIXEL_FORMAT_UNKNOWN = Unexpected ''Unknown pixel format.''
   \<and> getCvPixelFormat (PIXEL_FORMAT_UNNAMED 7) = Unexpected ''Unknown pixel format.''"
proof -
  have a: "PIXEL_FORMAT_UNKNOWN \<notin> supported_pixel_formats"
    by (simp add: supported_pixel_formats_def)
  have b: "PIXEL_FORMAT_UNNAMED 7 \<notin> supported_pixel_formats"
    by (simp add: supported_pixel_formats_def)
  from C7_pixel_format_table have
    u: "\<forall>f. f \<notin> supported_pixel_formats \<longrightarrow>
          getCvPixelFormat f = Unexpected ''Unknown pixel format.''"
    by blast
  from u a have "getCvPixelFormat PIXEL_FORMAT_UNKNOWN = Unexpected ''Unknown pixel format.''"
    by blast
  moreover from u b
  have "getCvPixelFormat (PIXEL_FORMAT_UNNAMED 7) = Unexpected ''Unknown pixel format.''"
    by blast
  ultimately show ?thesis using a b by simp
qed

subsection \<open>The transforms of one response\<close>

lemma image_transforms_loop_eq:
  "image_transforms_loop rn acq sk es out =
     out @ map (emitted rn acq sk) (filter (\<lambda>ce. fst ce \<notin> kExcludedStaticTfFrames) es)"
  by (induction es arbitrary: out)
    (auto simp: Let_def emitted_def namespaced_def external_parent_def)

lemma getImageTransforms_eq:
  "getImageTransforms r rn sk =
     Value (map (emitted rn (acquisition_time (shot r)) sk)
              (filter (\<lambda>ce. fst ce \<notin> kExcludedStaticTfFrames) (transforms_snapshot (shot r))))"
  by (simp add: getImageTransforms_def image_transforms_loop_eq)

lemma slash_not_in: "CHR ''/'' \<notin> set s \<Longrightarrow> rn @ ''/'' @ c \<noteq> s"
  by auto

lemma namespaced_not_excluded:
  "c \<notin> kExcludedStaticTfFrames \<Longrightarrow> namespaced rn c \<notin> kExcludedStaticTfFrames"
  using slash_not_in[of "''body''" rn c] slash_not_in[of "''odom''" rn c]
    slash_not_in[of "''vision''" rn c] slash_not_in[of "''arm0.link_wr1''" rn c]
  by (simp add: kExcludedStaticTfFrames_def namespaced_def)

lemma namespaced_external_parent_not_wrist:
  "namespaced rn (external_parent p) \<noteq> ''arm0.link_wr1''"
  using slash_not_in[of "''arm0.link_wr1''" rn "external_parent p"]
  by (simp add: namespaced_def external_parent_def)

lemma emitted_fields:
  "child_frame_id (emitted rn acq sk ce) = namespaced rn (fst ce)"
  "frame_id (tf_header (emitted rn acq sk ce)) = namespaced rn (external_parent (parent_frame_name (snd ce)))"
  "stamp (tf_header (emitted rn acq sk ce)) = applyClockSkew acq sk"
  "transform (emitted rn acq sk ce) = parent_tform_child (snd ce)"
  by (simp_all add: emitted_def toTransformStamped_def)

text \<open>
  C5. getImageTransforms always returns a sequence, and in it: no transform has
  the child frame "body", "odom", "vision" or "arm0.link_wr1"; no transform has
  the parent frame "arm0.link_wr1"; every transform comes from an edge of the
  snapshot whose child is not excluded, with the child and the renamed parent
  under the robot's name; and every such edge whose parent is "arm0.link_wr1"
  is emitted with the parent "link_wr1" (under the robot's name).
\<close>

theorem C5_excluded_children_and_wrist_rename:
  "\<exists>tfs. getImageTransforms r rn sk = Value tfs
     \<and> (\<forall>tf\<in>set tfs.
           child_frame_id tf \<notin> kExcludedStaticTfFrames
           \<and> frame_id (tf_header tf) \<noteq> ''arm0.link_wr1''
           \<and> (\<exists>ce\<in>set (transforms_snapshot (shot r)).
                 fst ce \<notin> kExcludedStaticTfFrames
                 \<and> child_frame_id tf = namespaced rn (fst ce)
                 \<and> frame_id (tf_header tf) =
                     namespaced rn (external_parent (parent_frame_name (snd ce)))
                 \<and> transform tf = parent_tform_child (snd ce)))
     \<and> (\<forall>ce\<in>set (transforms_snapshot (shot r)).
           fst ce \<notin> kExcludedStaticTfFrames \<and> parent_frame_name (snd ce) = ''arm0.link_wr1'' \<longrightarrow>
           (\<exists>tf\<in>set tfs. child_frame_id tf = namespaced rn (fst ce)
              \<and> frame_id (tf_header tf) = namespaced rn ''link_wr1''))"
proof -
  let ?es = "transforms_snapshot (shot r)"
  let ?kept = "filter (\<lambda>ce. fst ce \<notin> kExcludedStaticTfFrames) ?es"
  let ?tfs = "map (emitted rn (acquisition_time (shot r)) sk) ?kept"
  have val: "getImageTransforms r rn sk = Value ?tfs"
    by (rule getImageTransforms_eq)
  have every: "\<forall>tf\<in>set ?tfs.
           child_frame_id tf \<notin> kExcludedStaticTfFrames
           \<and> frame_id (tf_header tf) \<noteq> ''arm0.link_wr1''
           \<and> (\<exists>ce\<in>set ?es.
                 fst ce \<notin> kExcludedStaticTfFrames
                 \<and> child_frame_id tf = namespaced rn (fst ce)
                 \<and> frame_id (tf_header tf) =
                     namespaced rn (external_parent (parent_frame_name (snd ce)))
                 \<and> transform tf = parent_tform_child (snd ce))"
  proof
    fix tf assume "tf \<in> set ?tfs"
    then obtain ce where ce: "ce \<in> set ?es" "fst ce \<notin> kExcludedStaticTfFrames"
      and tf: "tf = emitted rn (acquisition_time (shot r)) sk ce"
      by auto
    have "child_frame_id tf \<notin> kExcludedStaticTfFrames"
      using ce(2) by (simp add: tf emitted_fields namespaced_not_excluded)
    moreover have "frame_id (tf_header tf) \<noteq> ''arm0.link_wr1''"
      by (simp add: tf emitted_fields namespaced_external_parent_not_wrist)
    moreover have "\<exists>ce\<in>set ?es.
                 fst ce \<notin> kExcludedStaticTfFrames
                 \<and> child_frame_id tf = namespaced rn (fst ce)
                 \<and> frame_id (tf_header tf) =
                     namespaced rn (external_parent (parent_frame_name (snd ce)))
                 \<and> transform tf = parent_tform_child (snd ce)"
      using ce by (intro bexI[of _ ce]) (simp_all add: tf emitted_fields)
    ultimately show "child_frame_id tf \<notin> kExcludedStaticTfFrames
           \<and> frame_id (tf_header tf) \<noteq> ''arm0.link_wr1''
           \<and> (\<exists>ce\<in>set ?es.
                 fst ce \<notin> kExcludedStaticTfFrames
                 \<and> child_frame_id tf = namespaced rn (fst ce)
                 \<and> frame_id (tf_header tf) =
                     namespaced rn (external_parent (parent_frame_name (snd ce)))
                 \<and> transform tf = parent_tform_child (snd ce))"
      by blast
  qed
  have wrist: "\<forall>ce\<in>set ?es.
           fst ce \<notin> kExcludedStaticTfFrames \<and> parent_frame_name (snd ce) = ''arm0.link_wr1'' \<longrightarrow>
           (\<exists>tf\<in>set ?tfs. child_frame_id tf = namespaced rn (fst ce)
              \<and> frame_id (tf_header tf) = namespaced rn ''link_wr1'')"
  proof (intro ballI impI)
    fix ce assume ce: "ce \<in> set ?es"
      and h: "fst ce \<notin> kExcludedStaticTfFrames \<and> parent_frame_name (snd ce) = ''arm0.link_wr1''"
    let ?tf = "emitted rn (acquisition_time (shot r)) sk ce"
    have "?tf \<in> set ?tfs" using ce h by simp
    moreover have "child_frame_id ?tf = namespaced rn (fst ce)"
      by (simp add: emitted_fields)
    moreover have "frame_id (tf_header ?tf) = namespaced rn ''link_wr1''"
      using h by (simp add: emitted_fields external_parent_def)
    ultimately show "\<exists>tf\<in>set ?tfs. child_frame_id tf = namespaced rn (fst ce)
              \<and> frame_id (tf_header tf) = namespaced rn ''link_wr1''"
      by blast
  qed
  from val every wrist show ?thesis by blast
qed

lemma hand_transforms:
  "getImageTransforms (sample_response ''hand_color_image'' (jpeg_4 PIXEL_FORMAT_RGB_U8) hand_edges)
     ''spot'' 50 =
   Value [toTransformStamped 2 ''spot/link_wr1'' ''spot/hand_color_image_sensor'' 950,
          toTransformStamped 5 ''spot/body'' ''spot/head'' 950]"
  by (simp add: getImageTransforms_def sample_response_def sample_capture_def hand_edges_def
      edge_def kExcludedStaticTfFrames_def applyClockSkew_def Let_def)

theorem C5_excluded_children_and_wrist_rename_witness:
  "(''hand_color_image_sensor'', edge ''arm0.link_wr1'' 2) \<in> set hand_edges
   \<and> ''hand_color_image_sensor'' \<notin> kExcludedStaticTfFrames
   \<and> (case getImageTransforms
              (sample_response ''hand_color_image'' (jpeg_4 PIXEL_FORMAT_RGB_U8) hand_edges)
              ''spot'' 50 of
         Value tfs \<Rightarrow>
           map child_frame_id tfs = [''spot/hand_color_image_sensor'', ''spot/head'']
           \<and> map (\<lambda>tf. frame_id (tf_header tf)) tfs = [''spot/link_wr1'', ''spot/body'']
           \<and> list_all (\<lambda>tf. child_frame_id tf \<notin> kExcludedStaticTfFrames) tfs
       | _ \<Rightarrow> False)"
proof -
  let ?r = "sample_response ''hand_color_image'' (jpeg_4 PIXEL_FORMAT_RGB_U8) hand_edges"
  have a: "(''hand_color_image_sensor'', edge ''arm0.link_wr1'' 2) \<in> set hand_edges"
    by (simp add: hand_edges_def)
  have b: "''hand_color_image_sensor'' \<notin> kExcludedStaticTfFrames"
    by (simp add: kExcludedStaticTfFrames_def)
  from C5_excluded_children_and_wrist_rename [of ?r "''spot''" 50]
  obtain tfs where v: "getImageTransforms ?r ''spot'' 50 = Value tfs"
    and every: "\<forall>tf\<in>set tfs. child_frame_id tf \<notin> kExcludedStaticTfFrames"
    by blast
  from every have all: "list_all (\<lambda>tf. child_frame_id tf \<notin> kExcludedStaticTfFrames) tfs"
    by (simp add: list_all_iff)
  from v have tfs: "tfs = [toTransformStamped 2 ''spot/link_wr1'' ''spot/hand_color_image_sensor'' 950,
          toTransformStamped 5 ''spot/body'' ''spot/head'' 950]"
    by (simp add: hand_transforms)
  have c: "map child_frame_id tfs = [''spot/hand_color_image_sensor'', ''spot/head'']"
    "map (\<lambda>tf. frame_id (tf_header tf)) tfs = [''spot/link_wr1'', ''spot/body'']"
    by (simp_all add: tfs toTransformStamped_def)
  show ?thesis using a b c all by (simp add: v)
qed

lemma hand_transforms_other_order:
  "getImageTransforms
     (sample_response ''hand_color_image'' (jpeg_4 PIXEL_FORMAT_RGB_U8) hand_edges_other_order)
     ''spot'' 50 =
   Value [toTransformStamped 5 ''spot/body'' ''spot/head'' 950,
          toTransformStamped 2 ''spot/link_wr1'' ''spot/hand_color_image_sensor'' 950]"
  by (simp add: getImageTransforms_def sample_response_def sample_capture_def
      hand_edges_other_order_def edge_def kExcludedStaticTfFrames_def applyClockSkew_def Let_def)

lemma hand_edges_same_map:
  "set hand_edges_other_order = set hand_edges"
  "mset hand_edges_other_order = mset hand_edges"
  "distinct (map fst hand_edges)" "distinct (map fst hand_edges_other_order)"
  by (auto simp: hand_edges_def hand_edges_other_order_def)

text \<open>
  C8, as stated, fails: the same five edges, each child frame once, handed out
  by the edge map in two different orders, give two different sequences. The
  source iterates the edge map as it comes and sorts nothing.
\<close>

theorem C8_output_order_counterexample:
  "set hand_edges_other_order = set hand_edges
   \<and> distinct (map fst hand_edges) \<and> distinct (map fst hand_edges_other_order)
   \<and> getImageTransforms
        (sample_response ''hand_color_image'' (jpeg_4 PIXEL_FORMAT_RGB_U8) hand_edges_other_order)
        ''spot'' 50
     \<noteq> getImageTransforms
        (sample_response ''hand_color_image'' (jpeg_4 PIXEL_FORMAT_RGB_U8) hand_edges)
        ''spot'' 50"
  by (simp add: hand_edges_same_map hand_transforms hand_transforms_other_order
      toTransformStamped_def)

text \<open>
  C8, amended. The output order of getImageTransforms is the iteration order of
  the snapshot's edge map: the edges whose child is not excluded, converted one
  by one, in the order in which the map hands them out. Two iteration orders of
  the same edges (with the same acquisition time) give the same transforms up to
  order.
\<close>

theorem C8_output_order_is_iteration_order:
  "getImageTransforms r rn sk =
     Value (map (emitted rn (acquisition_time (shot r)) sk)
              (filter (\<lambda>ce. fst ce \<notin> kExcludedStaticTfFrames) (transforms_snapshot (shot r))))
   \<and> (\<forall>r'. mset (transforms_snapshot (shot r')) = mset (transforms_snapshot (shot r))
           \<and> acquisition_time (shot r') = acquisition_time (shot r) \<longrightarrow>
         (\<exists>tfs tfs'. getImageTransforms r rn sk = Value tfs
            \<and> getImageTransforms r' rn sk = Value tfs' \<and> mset tfs' = mset tfs))"
proof -
  have "mset (map (emitted rn (acquisition_time (shot r')) sk)
              (filter (\<lambda>ce. fst ce \<notin> kExcludedStaticTfFrames) (transforms_snapshot (shot r'))))
      = mset (map (emitted rn (acquisition_time (shot r)) sk)
              (filter (\<lambda>ce. fst ce \<notin> kExcludedStaticTfFrames) (transforms_snapshot (shot r))))"
    if "mset (transforms_snapshot (shot r')) = mset (transforms_snapshot (shot r))"
      and "acquisition_time (shot r') = acquisition_time (shot r)" for r' :: "'a ImageResponse"
    by (simp only: mset_map mset_filter that)
  then show ?thesis by (simp add: getImageTransforms_eq)
qed

theorem C8_output_order_is_iteration_order_witness:
  "mset hand_edges_other_order = mset hand_edges
   \<and> (case (getImageTransforms
               (sample_response ''hand_color_image'' (jpeg_4 PIXEL_FORMAT_RGB_U8) hand_edges)
               ''spot'' 50,
             getImageTransforms
               (sample_response ''hand_color_image'' (jpeg_4 PIXEL_FORMAT_RGB_U8)
                  hand_edges_other_order)
               ''spot'' 50) of
         (Value tfs, Value tfs') \<Rightarrow> mset tfs' = mset tfs \<and> length tfs = 2
       | _ \<Rightarrow> False)"
proof -
  let ?r = "sample_response ''hand_color_image'' (jpeg_4 PIXEL_FORMAT_RGB_U8) hand_edges"
  let ?r' = "sample_response ''hand_color_image'' (jpeg_4 PIXEL_FORMAT_RGB_U8) hand_edges_other_order"
  have same: "mset (transforms_snapshot (shot ?r')) = mset (transforms_snapshot (shot ?r))
           \<and> acquisition_time (shot ?r') = acquisition_time (shot ?r)"
    by (simp add: sample_response_def sample_capture_def hand_edges_same_map)
  from C8_output_order_is_iteration_order [of ?r "''spot''" 50] same
  obtain tfs tfs' where v: "getImageTransforms ?r ''spot'' 50 = Value tfs"
    and v': "getImageTransforms ?r' ''spot'' 50 = Value tfs'"
    and m: "mset tfs' = mset tfs"
    by blast
  from v have "length tfs = 2" by (auto simp: hand_transforms)
  with m show ?thesis by (simp add: v v' hand_edges_same_map)
qed

subsection \<open>The loop over the image responses\<close>

lemma loop_Cons:
  "getImages_loop d f rn sk (r # rest) out =
     (case getImages_loop d f rn sk [r] out of
        Value out1 \<Rightarrow> getImages_loop d f rn sk rest out1
      | Unexpected e \<Rightarrow> Unexpected e
      | ReadPastPayload \<Rightarrow> ReadPastPayload)"
  by (simp add: Let_def getImageTransforms_def toCameraInfoMsg_def split: expected.splits)

lemma single_failure_same:
  "\<not> has_value (getImages_loop d f rn sk [r] out) \<Longrightarrow>
   getImages_loop d f rn sk [r] out' = getImages_loop d f rn sk [r] out"
  by (simp add: Let_def getImageTransforms_def toCameraInfoMsg_def split: expected.splits)

lemma single_has_value_same:
  "has_value (getImages_loop d f rn sk [r] out) = has_value (getImages_loop d f rn sk [r] out')"
  by (simp add: Let_def getImageTransforms_def toCameraInfoMsg_def split: expected.splits)

lemma single_has_value_iff:
  "has_value (getImages_loop d f rn sk [r] out) \<longleftrightarrow>
   has_value (toImageMsg d (shot r) rn sk) \<and> has_value (f (source_name (source r)))"
  by (simp add: Let_def getImageTransforms_def toCameraInfoMsg_def split: expected.splits)

lemma single_image_error:
  "toImageMsg d (shot r) rn sk = Unexpected e \<Longrightarrow>
   getImages_loop d f rn sk [r] out =
     Unexpected (''Failed to convert SDK image response to ROS Image message: '' @ e)"
  by simp

lemma single_name_error:
  "has_value (toImageMsg d (shot r) rn sk) \<Longrightarrow> f (source_name (source r)) = Unexpected e \<Longrightarrow>
   getImages_loop d f rn sk [r] out =
     Unexpected (''Failed to convert API image source name to ImageSource: '' @ e)"
  by (cases "toImageMsg d (shot r) rn sk") (simp_all add: toCameraInfoMsg_def Let_def)

lemma single_value:
  "toImageMsg d (shot r) rn sk = Value im \<Longrightarrow> f (source_name (source r)) = Value k \<Longrightarrow>
   getImages_loop d f rn sk [r] out =
     Value \<lparr>res_images = try_emplace (res_images out) k
                \<lparr>iwc_image = im,
                 iwc_info = (case toCameraInfoMsg r rn sk of Value ci \<Rightarrow> ci)\<rparr>,
            res_transforms = res_transforms out @
              map (emitted rn (acquisition_time (shot r)) sk)
                (filter (\<lambda>ce. fst ce \<notin> kExcludedStaticTfFrames) (transforms_snapshot (shot r)))\<rparr>"
  by (simp add: toCameraInfoMsg_def getImageTransforms_eq Let_def)

declare getImages_loop.simps(2) [simp del]

lemma has_value_iff: "has_value x \<longleftrightarrow> (\<exists>v. x = Value v)"
  by (cases x) simp_all

lemma loop_append:
  "getImages_loop d f rn sk (xs @ ys) out =
     (case getImages_loop d f rn sk xs out of
        Value out1 \<Rightarrow> getImages_loop d f rn sk ys out1
      | Unexpected e \<Rightarrow> Unexpected e
      | ReadPastPayload \<Rightarrow> ReadPastPayload)"
proof (induction xs arbitrary: out)
  case Nil
  then show ?case by simp
next
  case (Cons x xs)
  show ?case
    by (subst append_Cons, subst loop_Cons, subst (2) loop_Cons)
      (simp add: Cons.IH split: expected.splits)
qed

lemma loop_all_have_value:
  "\<forall>r\<in>set rs. has_value (getImages_loop d f rn sk [r] out0) \<Longrightarrow>
   has_value (getImages_loop d f rn sk rs out)"
proof (induction rs arbitrary: out)
  case Nil
  then show ?case by simp
next
  case (Cons r rs)
  from Cons.prems have "has_value (getImages_loop d f rn sk [r] out)"
    using single_has_value_same[of d f rn sk r out out0] by simp
  then obtain o1 where o1: "getImages_loop d f rn sk [r] out = Value o1"
    by (auto simp: has_value_iff)
  from Cons.prems have "\<forall>r\<in>set rs. has_value (getImages_loop d f rn sk [r] out0)" by simp
  from Cons.IH[OF this] have "has_value (getImages_loop d f rn sk rs o1)" .
  then show ?case by (subst loop_Cons) (simp add: o1)
qed

lemma loop_value_all_have_value:
  "getImages_loop d f rn sk rs out = Value out' \<Longrightarrow>
   \<forall>r\<in>set rs. has_value (getImages_loop d f rn sk [r] out0)"
proof (induction rs arbitrary: out)
  case Nil
  then show ?case by simp
next
  case (Cons r rs)
  from Cons.prems obtain o1 where o1: "getImages_loop d f rn sk [r] out = Value o1"
    and rest: "getImages_loop d f rn sk rs o1 = Value out'"
    by (subst (asm) loop_Cons) (auto split: expected.splits)
  from o1 have "has_value (getImages_loop d f rn sk [r] out0)"
    using single_has_value_same[of d f rn sk r out out0] by simp
  with Cons.IH[OF rest] show ?case by simp
qed

lemma first_failure_decides:
  assumes pre: "\<forall>p\<in>set pre. has_value (getImages_loop d f rn sk [p] out)"
    and bad: "\<not> has_value (getImages_loop d f rn sk [r] out)"
  shows "getImages_loop d f rn sk (pre @ r # post) out = getImages_loop d f rn sk [r] out"
proof -
  from loop_all_have_value[OF pre] obtain o1 where o1: "getImages_loop d f rn sk pre out = Value o1"
    by (auto simp: has_value_iff)
  have same: "getImages_loop d f rn sk [r] o1 = getImages_loop d f rn sk [r] out"
    by (rule single_failure_same[OF bad])
  have "getImages_loop d f rn sk (r # post) o1 = getImages_loop d f rn sk [r] out"
    using bad same by (subst loop_Cons) (auto split: expected.splits)
  then show ?thesis by (simp add: loop_append o1)
qed

lemma getImages_Inr_Value:
  "getImages d f rn (Inr rs) (Value sk) =
     getImages_loop d f rn sk rs \<lparr>res_images = Map.empty, res_transforms = []\<rparr>"
  by (simp add: getImages_def)

text \<open>
  C4. getImages is fail-fast and all-or-nothing. When every entry before \<open>r\<close>
  converts on its own and \<open>r\<close> does not, the batch returns exactly what \<open>r\<close> alone
  returns, whatever follows \<open>r\<close>; a batch returns a result only if every one of
  its entries converts on its own; and the error of an entry is the stage's
  error under the stage's prefix (image conversion, which covers pixel format
  and decoding, or source-name mapping).
\<close>

theorem C4_fail_fast:
  "((\<forall>p\<in>set pre. has_value (getImages d f rn (Inr [p]) (Value sk)))
      \<and> \<not> has_value (getImages d f rn (Inr [r]) (Value sk)) \<longrightarrow>
      getImages d f rn (Inr (pre @ r # post)) (Value sk) = getImages d f rn (Inr [r]) (Value sk))
   \<and> (has_value (getImages d f rn (Inr rs) (Value sk)) \<longrightarrow>
        (\<forall>x\<in>set rs. has_value (getImages d f rn (Inr [x]) (Value sk))))
   \<and> (toImageMsg d (shot r) rn sk = Unexpected e \<longrightarrow>
        getImages d f rn (Inr [r]) (Value sk) =
          Unexpected (''Failed to convert SDK image response to ROS Image message: '' @ e))
   \<and> (has_value (toImageMsg d (shot r) rn sk) \<and> f (source_name (source r)) = Unexpected e \<longrightarrow>
        getImages d f rn (Inr [r]) (Value sk) =
          Unexpected (''Failed to convert API image source name to ImageSource: '' @ e))"
  unfolding getImages_Inr_Value
  using first_failure_decides[of pre d f rn sk _ r post]
    loop_value_all_have_value[of d f rn sk rs]
    single_image_error[of d r rn sk e f] single_name_error[of d r rn sk f e]
  by (auto simp: has_value_iff)


lemmas sample_defs =
  sample_response_def sample_capture_def sample_image_def sample_intrinsics_def
  depth_1x1_def depth_1x1_short_def depth_1x1_empty_def rgb_1x1_def jpeg_4_def
  sample_registry_def no_codec_def one_pixel_codec_def

lemmas image_defs =
  toImageMsg_def imdecode_def CvImage_toImageMsg_def Mat_over_def address_of_front_def
  read_bytes_def mat_size_bytes_def elemSize_values TYPE_16UC1_def sensor_frame_id_def
  applyClockSkew_def Let_def

lemma depth_entry_has_value:
  "has_value (getImages no_codec sample_registry ''spot''
      (Inr [sample_response ''frontleft_depth'' depth_1x1 []]) (Value 50))"
  by (simp add: getImages_Inr_Value single_has_value_iff sample_defs image_defs)

lemma unknown_format_entry:
  "toImageMsg no_codec (shot (sample_response ''hand_color_image'' (jpeg_4 PIXEL_FORMAT_UNKNOWN) hand_edges))
     ''spot'' 50 = Unexpected ''Failed to determine pixel format: Unknown pixel format.''"
  by (simp add: sample_defs image_defs)

lemma unknown_name_entry:
  "has_value (toImageMsg no_codec (shot (sample_response ''nope'' depth_1x1 [])) ''spot'' 50)"
  "sample_registry (source_name (source (sample_response ''nope'' depth_1x1 []))) =
     Unexpected ''Unknown source nope''"
  by (simp_all add: sample_defs image_defs)

theorem C4_fail_fast_witness:
  "has_value (getImages no_codec sample_registry ''spot''
      (Inr [sample_response ''frontleft_depth'' depth_1x1 []]) (Value 50))
   \<and> \<not> has_value (getImages no_codec sample_registry ''spot''
      (Inr [sample_response ''hand_color_image'' (jpeg_4 PIXEL_FORMAT_UNKNOWN) hand_edges]) (Value 50))
   \<and> getImages no_codec sample_registry ''spot''
        (Inr [sample_response ''frontleft_depth'' depth_1x1 [],
              sample_response ''hand_color_image'' (jpeg_4 PIXEL_FORMAT_UNKNOWN) hand_edges,
              sample_response ''frontleft_depth'' depth_1x1 []]) (Value 50)
      = Unexpected (''Failed to convert SDK image response to ROS Image message: '' @
                    ''Failed to determine pixel format: Unknown pixel format.'')
   \<and> getImages no_codec sample_registry ''spot''
        (Inr [sample_response ''frontleft_depth'' depth_1x1 [],
              sample_response ''nope'' depth_1x1 [],
              sample_response ''frontleft_depth'' depth_1x1 []]) (Value 50)
      = Unexpected (''Failed to convert API image source name to ImageSource: '' @
                    ''Unknown source nope'')
   \<and> has_value (getImages no_codec sample_registry ''spot''
        (Inr [sample_response ''frontleft_depth'' depth_1x1 [],
              sample_response ''frontleft_depth'' depth_1x1 []]) (Value 50))"
proof -
  let ?G = "\<lambda>rs. getImages no_codec sample_registry ''spot'' (Inr rs) (Value 50)"
  let ?good = "sample_response ''frontleft_depth'' depth_1x1 []"
  let ?bad = "sample_response ''hand_color_image'' (jpeg_4 PIXEL_FORMAT_UNKNOWN) hand_edges"
  let ?nope = "sample_response ''nope'' depth_1x1 []"
  note good = depth_entry_has_value
  have pre: "\<forall>p\<in>set [?good]. has_value (?G [p])" using good by simp
  note inst = C4_fail_fast [where d = no_codec and f = sample_registry and rn = "''spot''"
      and sk = 50 and pre = "[?good]" and post = "[?good]"
      and e = "''Failed to determine pixel format: Unknown pixel format.''" and r = ?bad
      and rs = "[?good]"]
  from inst unknown_format_entry have bad1:
    "?G [?bad] = Unexpected (''Failed to convert SDK image response to ROS Image message: '' @
                    ''Failed to determine pixel format: Unknown pixel format.'')"
    by blast
  then have nb: "\<not> has_value (?G [?bad])" by simp
  from inst pre nb have "?G ([?good] @ ?bad # [?good]) = ?G [?bad]" by blast
  with bad1 have batch1: "?G [?good, ?bad, ?good] =
      Unexpected (''Failed to convert SDK image response to ROS Image message: '' @
                    ''Failed to determine pixel format: Unknown pixel format.'')"
    by simp
  note inst2 = C4_fail_fast [where d = no_codec and f = sample_registry and rn = "''spot''"
      and sk = 50 and pre = "[?good]" and post = "[?good]"
      and e = "''Unknown source nope''" and r = ?nope and rs = "[?good]"]
  from inst2 unknown_name_entry have bad2:
    "?G [?nope] = Unexpected (''Failed to convert API image source name to ImageSource: '' @
                    ''Unknown source nope'')"
    by blast
  then have nb2: "\<not> has_value (?G [?nope])" by simp
  from inst2 pre nb2 have "?G ([?good] @ ?nope # [?good]) = ?G [?nope]" by blast
  with bad2 have batch2: "?G [?good, ?nope, ?good] =
      Unexpected (''Failed to convert API image source name to ImageSource: '' @
                    ''Unknown source nope'')"
    by simp
  have "\<forall>r\<in>set [?good, ?good].
          has_value (getImages_loop no_codec sample_registry ''spot'' 50 [r]
            \<lparr>res_images = Map.empty, res_transforms = []\<rparr>)"
    using good by (simp add: getImages_Inr_Value)
  from loop_all_have_value[OF this] have both: "has_value (?G [?good, ?good])"
    by (simp add: getImages_Inr_Value)
  from good nb batch1 batch2 both show ?thesis by blast
qed

subsection \<open>Entries with the same source\<close>

lemma toCameraInfoMsg_has_value: "\<exists>ci. toCameraInfoMsg r rn sk = Value ci"
  by (simp add: toCameraInfoMsg_def Let_def)

lemma single_cases:
  assumes "getImages_loop d f rn sk [r] out = Value o1"
  obtains im ci k where "toImageMsg d (shot r) rn sk = Value im"
    "toCameraInfoMsg r rn sk = Value ci" "f (source_name (source r)) = Value k"
    "o1 = \<lparr>res_images = try_emplace (res_images out) k \<lparr>iwc_image = im, iwc_info = ci\<rparr>,
           res_transforms = res_transforms out @ transforms_of rn sk r\<rparr>"
  using assms
  by (auto simp: getImages_loop.simps(2) Let_def getImageTransforms_eq transforms_of_def
      split: expected.splits)

lemma single_keeps_existing:
  "getImages_loop d f rn sk [r] out = Value o1 \<Longrightarrow> res_images out k = Some v \<Longrightarrow>
   res_images o1 k = Some v"
  by (erule single_cases) (auto simp: try_emplace_def split: option.splits)

lemma single_other_key:
  "getImages_loop d f rn sk [r] out = Value o1 \<Longrightarrow> f (source_name (source r)) \<noteq> Value k \<Longrightarrow>
   res_images o1 k = res_images out k"
  by (erule single_cases) (auto simp: try_emplace_def split: option.splits)

lemma single_new_key:
  "getImages_loop d f rn sk [r] out = Value o1 \<Longrightarrow> f (source_name (source r)) = Value k \<Longrightarrow>
   res_images out k = None \<Longrightarrow> toImageMsg d (shot r) rn sk = Value im \<Longrightarrow>
   toCameraInfoMsg r rn sk = Value ci \<Longrightarrow>
   res_images o1 k = Some \<lparr>iwc_image = im, iwc_info = ci\<rparr>"
  by (erule single_cases) (auto simp: try_emplace_def split: option.splits)

lemma single_transforms:
  "getImages_loop d f rn sk [r] out = Value o1 \<Longrightarrow>
   res_transforms o1 = res_transforms out @ transforms_of rn sk r"
  by (erule single_cases) simp

lemma loop_Cons_Value:
  assumes "getImages_loop d f rn sk (r # rs) out = Value out'"
  obtains o1 where "getImages_loop d f rn sk [r] out = Value o1"
    "getImages_loop d f rn sk rs o1 = Value out'"
  using assms by (subst (asm) loop_Cons) (auto split: expected.splits)

lemma loop_keeps_existing:
  "getImages_loop d f rn sk rs out = Value out' \<Longrightarrow> res_images out k = Some v \<Longrightarrow>
   res_images out' k = Some v"
proof (induction rs arbitrary: out)
  case Nil
  then show ?case by simp
next
  case (Cons r rs)
  from Cons.prems(1) obtain o1 where o1: "getImages_loop d f rn sk [r] out = Value o1"
    and rest: "getImages_loop d f rn sk rs o1 = Value out'"
    by (rule loop_Cons_Value)
  from single_keeps_existing[OF o1 Cons.prems(2)] have "res_images o1 k = Some v" .
  from Cons.IH[OF rest this] show ?case .
qed

lemma loop_other_keys:
  "getImages_loop d f rn sk rs out = Value out' \<Longrightarrow>
   \<forall>p\<in>set rs. f (source_name (source p)) \<noteq> Value k \<Longrightarrow>
   res_images out' k = res_images out k"
proof (induction rs arbitrary: out)
  case Nil
  then show ?case by simp
next
  case (Cons r rs)
  from Cons.prems(1) obtain o1 where o1: "getImages_loop d f rn sk [r] out = Value o1"
    and rest: "getImages_loop d f rn sk rs o1 = Value out'"
    by (rule loop_Cons_Value)
  from Cons.prems(2) have "f (source_name (source r)) \<noteq> Value k" by simp
  from single_other_key[OF o1 this] have "res_images o1 k = res_images out k" .
  moreover from Cons.prems(2) have "\<forall>p\<in>set rs. f (source_name (source p)) \<noteq> Value k" by simp
  from Cons.IH[OF rest this] have "res_images out' k = res_images o1 k" .
  ultimately show ?case by simp
qed

lemma loop_transforms:
  "getImages_loop d f rn sk rs out = Value out' \<Longrightarrow>
   res_transforms out' = res_transforms out @ concat (map (transforms_of rn sk) rs)"
proof (induction rs arbitrary: out)
  case Nil
  then show ?case by simp
next
  case (Cons r rs)
  from Cons.prems(1) obtain o1 where o1: "getImages_loop d f rn sk [r] out = Value o1"
    and rest: "getImages_loop d f rn sk rs o1 = Value out'"
    by (rule loop_Cons_Value)
  from Cons.IH[OF rest] single_transforms[OF o1] show ?case by simp
qed

lemma first_entry_kept:
  assumes res: "getImages_loop d f rn sk (pre @ r # post) out = Value out'"
    and empty: "res_images out k = None"
    and k: "f (source_name (source r)) = Value k"
    and pre: "\<forall>p\<in>set pre. f (source_name (source p)) \<noteq> Value k"
    and im: "toImageMsg d (shot r) rn sk = Value im"
    and ci: "toCameraInfoMsg r rn sk = Value ci"
  shows "res_images out' k = Some \<lparr>iwc_image = im, iwc_info = ci\<rparr>"
proof -
  from res obtain o1 where o1: "getImages_loop d f rn sk pre out = Value o1"
    and rest: "getImages_loop d f rn sk (r # post) o1 = Value out'"
    by (auto simp: loop_append split: expected.splits)
  from rest obtain o2 where o2: "getImages_loop d f rn sk [r] o1 = Value o2"
    and post: "getImages_loop d f rn sk post o2 = Value out'"
    by (rule loop_Cons_Value)
  from loop_other_keys[OF o1 pre] empty have "res_images o1 k = None" by simp
  from single_new_key[OF o2 k this im ci]
  have "res_images o2 k = Some \<lparr>iwc_image = im, iwc_info = ci\<rparr>" .
  from loop_keeps_existing[OF post this] show ?thesis .
qed

text \<open>
  C1, amended. Entries that map to the same canonical source do not make
  getImages fail: a batch in which every entry converts and has a known source
  name returns a result, duplicates or not. In the result a source holds the
  image and camera info of the first entry that maps to it, whatever follows (so
  the first entry is never overwritten, and a later duplicate's image and
  camera info are not stored), and the transforms of every entry are appended
  in batch order.
\<close>

theorem C1_duplicates_keep_first:
  "((\<forall>x\<in>set rs. has_value (toImageMsg d (shot x) rn sk)
        \<and> has_value (f (source_name (source x)))) \<longrightarrow>
      has_value (getImages d f rn (Inr rs) (Value sk)))
   \<and> (getImages d f rn (Inr (pre @ r # post)) (Value sk) = Value out
        \<and> f (source_name (source r)) = Value k
        \<and> (\<forall>p\<in>set pre. f (source_name (source p)) \<noteq> Value k)
        \<and> toImageMsg d (shot r) rn sk = Value im
        \<and> toCameraInfoMsg r rn sk = Value ci \<longrightarrow>
      res_images out k = Some \<lparr>iwc_image = im, iwc_info = ci\<rparr>)
   \<and> (getImages d f rn (Inr rs) (Value sk) = Value out' \<longrightarrow>
      res_transforms out' = concat (map (transforms_of rn sk) rs))"
proof (intro conjI impI)
  assume "\<forall>x\<in>set rs. has_value (toImageMsg d (shot x) rn sk)
        \<and> has_value (f (source_name (source x)))"
  then have "\<forall>x\<in>set rs. has_value (getImages_loop d f rn sk [x]
      \<lparr>res_images = Map.empty, res_transforms = []\<rparr>)"
    by (simp add: single_has_value_iff)
  from loop_all_have_value[OF this]
  show "has_value (getImages d f rn (Inr rs) (Value sk))"
    by (simp add: getImages_Inr_Value)
next
  assume "getImages d f rn (Inr (pre @ r # post)) (Value sk) = Value out
        \<and> f (source_name (source r)) = Value k
        \<and> (\<forall>p\<in>set pre. f (source_name (source p)) \<noteq> Value k)
        \<and> toImageMsg d (shot r) rn sk = Value im
        \<and> toCameraInfoMsg r rn sk = Value ci"
  then show "res_images out k = Some \<lparr>iwc_image = im, iwc_info = ci\<rparr>"
    using first_entry_kept[of d f rn sk pre r post
        "\<lparr>res_images = Map.empty, res_transforms = []\<rparr>" out k im ci]
    by (simp add: getImages_Inr_Value)
next
  assume "getImages d f rn (Inr rs) (Value sk) = Value out'"
  then show "res_transforms out' = concat (map (transforms_of rn sk) rs)"
    using loop_transforms[of d f rn sk rs "\<lparr>res_images = Map.empty, res_transforms = []\<rparr>" out']
    by (simp add: getImages_Inr_Value)
qed


lemma dup_entries:
  "toImageMsg no_codec (shot dup_first) ''spot'' 50 =
     Value \<lparr>msg_header = \<lparr>stamp = 950, frame_id = ''spot/cam''\<rparr>, msg_height = 1, msg_width = 1,
            msg_encoding = ''16UC1'', msg_step = 2, msg_data = ''AB''\<rparr>"
  "toImageMsg no_codec (shot dup_second) ''spot'' 50 =
     Value \<lparr>msg_header = \<lparr>stamp = 950, frame_id = ''spot/cam''\<rparr>, msg_height = 1, msg_width = 1,
            msg_encoding = ''16UC1'', msg_step = 2, msg_data = ''CD''\<rparr>"
  "sample_registry (source_name (source dup_first)) = Value 1"
  "sample_registry (source_name (source dup_second)) = Value 1"
  by (simp_all add: dup_first_def dup_second_def depth_1x1_other_def sample_defs image_defs)

lemma dup_transforms:
  "transforms_of ''spot'' 50 dup_first = [toTransformStamped 5 ''spot/body'' ''spot/head'' 950]"
  "transforms_of ''spot'' 50 dup_second = [toTransformStamped 6 ''spot/body'' ''spot/tail'' 950]"
  by (simp_all add: transforms_of_def dup_first_def dup_second_def sample_defs edge_def
      kExcludedStaticTfFrames_def emitted_def namespaced_def external_parent_def applyClockSkew_def)

lemma dup_batch:
  "getImages no_codec sample_registry ''spot'' (Inr [dup_first, dup_second]) (Value 50) =
     Value \<lparr>res_images =
              [1 \<mapsto> \<lparr>iwc_image =
                        \<lparr>msg_header = \<lparr>stamp = 950, frame_id = ''spot/cam''\<rparr>, msg_height = 1,
                         msg_width = 1, msg_encoding = ''16UC1'', msg_step = 2, msg_data = ''AB''\<rparr>,
                      iwc_info = (case toCameraInfoMsg dup_first ''spot'' 50 of Value ci \<Rightarrow> ci)\<rparr>],
            res_transforms =
              [toTransformStamped 5 ''spot/body'' ''spot/head'' 950,
               toTransformStamped 6 ''spot/body'' ''spot/tail'' 950]\<rparr>"
  apply (simp only: getImages_Inr_Value)
  apply (subst loop_Cons)
  apply (simp only: single_value[where f = sample_registry, OF dup_entries(1) dup_entries(3)]
      expected.case)
  apply (simp only: single_value[where f = sample_registry, OF dup_entries(2) dup_entries(4)])
  apply (simp add: try_emplace_def dup_transforms[unfolded transforms_of_def])
  done

text \<open>
  C1, as stated, fails: two entries whose names map to the same canonical source
  do not make getImages fail. The call returns a result in which the source
  holds the first entry's image, the second entry's image is gone without an
  error, and the transforms of both entries are present.
\<close>

theorem C1_duplicate_source_counterexample:
  "sample_registry (source_name (source dup_first)) = Value 1
   \<and> sample_registry (source_name (source dup_second)) = Value 1
   \<and> (case getImages no_codec sample_registry ''spot'' (Inr [dup_first, dup_second]) (Value 50) of
         Value out \<Rightarrow>
           map_option (msg_data \<circ> iwc_image) (res_images out 1) = Some ''AB''
           \<and> map child_frame_id (res_transforms out) = [''spot/head'', ''spot/tail'']
       | _ \<Rightarrow> False)"
  by (simp add: dup_entries dup_batch toTransformStamped_def)


theorem C1_duplicates_keep_first_witness:
  "has_value (toImageMsg no_codec (shot dup_first) ''spot'' 50)
   \<and> has_value (toImageMsg no_codec (shot dup_second) ''spot'' 50)
   \<and> sample_registry (source_name (source dup_first)) = Value 1
   \<and> sample_registry (source_name (source dup_second)) = Value 1
   \<and> has_value (getImages no_codec sample_registry ''spot'' (Inr [dup_first, dup_second]) (Value 50))
   \<and> (case (getImages no_codec sample_registry ''spot'' (Inr [dup_first, dup_second]) (Value 50),
             toImageMsg no_codec (shot dup_first) ''spot'' 50,
             toCameraInfoMsg dup_first ''spot'' 50) of
         (Value out, Value im, Value ci) \<Rightarrow>
           res_images out 1 = Some \<lparr>iwc_image = im, iwc_info = ci\<rparr>
           \<and> res_transforms out =
               transforms_of ''spot'' 50 dup_first @ transforms_of ''spot'' 50 dup_second
       | _ \<Rightarrow> False)"
proof -
  let ?G = "getImages no_codec sample_registry ''spot'' (Inr [dup_first, dup_second]) (Value 50)"
  note inst = C1_duplicates_keep_first [where d = no_codec and f = sample_registry and rn = "''spot''"
      and sk = 50 and rs = "[dup_first, dup_second]" and pre = "[]" and r = dup_first
      and post = "[dup_second]" and k = 1]
  have each: "\<forall>x\<in>set [dup_first, dup_second].
      has_value (toImageMsg no_codec (shot x) ''spot'' 50)
      \<and> has_value (sample_registry (source_name (source x)))"
    by (simp add: dup_entries)
  from inst each have hv: "has_value ?G" by blast
  then obtain out where out: "?G = Value out" by (auto simp: has_value_iff)
  obtain im where im: "toImageMsg no_codec (shot dup_first) ''spot'' 50 = Value im"
    by (simp add: dup_entries)
  obtain ci where ci: "toCameraInfoMsg dup_first ''spot'' 50 = Value ci"
    using toCameraInfoMsg_has_value by blast
  have first: "res_images out 1 = Some \<lparr>iwc_image = im, iwc_info = ci\<rparr>"
    using inst [where out = out and im = im and ci = ci] out im ci dup_entries(3) by simp
  have tfs: "res_transforms out =
      transforms_of ''spot'' 50 dup_first @ transforms_of ''spot'' 50 dup_second"
    using inst [where out' = out] out by simp
  from each hv first tfs show ?thesis by (simp add: out im ci dup_entries)
qed

subsection \<open>Time stamps\<close>

lemma CvImage_toImageMsg_header:
  "CvImage_toImageMsg h enc m = Value im \<Longrightarrow> msg_header im = h \<and> msg_encoding im = enc"
  by (auto simp: CvImage_toImageMsg_def split: option.splits)

lemma toImageMsg_stamp:
  "toImageMsg d cap rn sk = Value im \<Longrightarrow>
   stamp (msg_header im) = applyClockSkew (acquisition_time cap) sk"
  by (auto simp: toImageMsg_def Let_def split: expected.splits if_splits
      dest!: CvImage_toImageMsg_header)

lemma toCameraInfoMsg_stamp:
  "toCameraInfoMsg r rn sk = Value ci \<Longrightarrow>
   stamp (info_header ci) = applyClockSkew (acquisition_time (shot r)) sk"
  by (auto simp: toCameraInfoMsg_def Let_def)

lemma transforms_of_stamp:
  "tf \<in> set (transforms_of rn sk r) \<Longrightarrow>
   stamp (tf_header tf) = applyClockSkew (acquisition_time (shot r)) sk"
  by (auto simp: transforms_of_def emitted_fields)

lemma single_stamps:
  assumes o1: "getImages_loop d f rn sk [r] out = Value o1"
    and inv: "stamps_corrected f sk S out" and r: "r \<in> S"
  shows "stamps_corrected f sk S o1"
proof -
  from o1 obtain im ci k where im: "toImageMsg d (shot r) rn sk = Value im"
    and ci: "toCameraInfoMsg r rn sk = Value ci" and k: "f (source_name (source r)) = Value k"
    and eq: "o1 = \<lparr>res_images = try_emplace (res_images out) k \<lparr>iwc_image = im, iwc_info = ci\<rparr>,
           res_transforms = res_transforms out @ transforms_of rn sk r\<rparr>"
    by (rule single_cases)
  note st = toImageMsg_stamp[OF im] toCameraInfoMsg_stamp[OF ci]
  show ?thesis
    unfolding stamps_corrected_def
  proof (intro conjI allI impI ballI)
    fix k' iwc assume a: "res_images o1 k' = Some iwc"
    show "\<exists>r\<in>S. f (source_name (source r)) = Value k'
           \<and> stamp (msg_header (iwc_image iwc)) = applyClockSkew (acquisition_time (shot r)) sk
           \<and> stamp (info_header (iwc_info iwc)) = applyClockSkew (acquisition_time (shot r)) sk"
    proof (cases "res_images out k'")
      case None
      with a have "k' = k \<and> iwc = \<lparr>iwc_image = im, iwc_info = ci\<rparr>"
        by (auto simp: eq try_emplace_def split: option.splits if_splits)
      with st k r show ?thesis by auto
    next
      case (Some v)
      with a have "iwc = v"
        by (auto simp: eq try_emplace_def split: option.splits if_splits)
      with Some inv show ?thesis by (auto simp: stamps_corrected_def)
    qed
  next
    fix tf assume "tf \<in> set (res_transforms o1)"
    then consider "tf \<in> set (res_transforms out)" | "tf \<in> set (transforms_of rn sk r)"
      by (auto simp: eq)
    then show "\<exists>r\<in>S. stamp (tf_header tf) = applyClockSkew (acquisition_time (shot r)) sk"
    proof cases
      case 1
      with inv show ?thesis by (auto simp: stamps_corrected_def)
    next
      case 2
      from transforms_of_stamp[OF this] r show ?thesis by auto
    qed
  qed
qed

lemma loop_stamps:
  "getImages_loop d f rn sk rs out = Value out' \<Longrightarrow> stamps_corrected f sk S out \<Longrightarrow>
   set rs \<subseteq> S \<Longrightarrow> stamps_corrected f sk S out'"
proof (induction rs arbitrary: out)
  case Nil
  then show ?case by simp
next
  case (Cons r rs)
  from Cons.prems(1) obtain o1 where o1: "getImages_loop d f rn sk [r] out = Value o1"
    and rest: "getImages_loop d f rn sk rs o1 = Value out'"
    by (rule loop_Cons_Value)
  from Cons.prems(3) have r: "r \<in> S" and rs: "set rs \<subseteq> S" by auto
  from single_stamps[OF o1 Cons.prems(2) r] have "stamps_corrected f sk S o1" .
  from Cons.IH[OF rest this rs] show ?case .
qed

text \<open>
  C6. applyClockSkew computes t - skew, so applying it and adding the skew back
  gives t, and a zero skew changes nothing. In a result of getImages, the stamp
  of every image and of every camera info is the acquisition time of the
  response it came from corrected by the one clock skew of the call, and the
  stamp of every transform is the corrected acquisition time of a response of
  the batch.
\<close>

theorem C6_clock_skew:
  "applyClockSkew t skew = t - skew
   \<and> applyClockSkew t skew + skew = t
   \<and> applyClockSkew t 0 = t
   \<and> (getImages d f rn (Inr rs) (Value sk) = Value out \<longrightarrow>
        (\<forall>k iwc. res_images out k = Some iwc \<longrightarrow>
           (\<exists>r\<in>set rs. f (source_name (source r)) = Value k
              \<and> stamp (msg_header (iwc_image iwc)) = applyClockSkew (acquisition_time (shot r)) sk
              \<and> stamp (info_header (iwc_info iwc)) = applyClockSkew (acquisition_time (shot r)) sk))
        \<and> (\<forall>tf\<in>set (res_transforms out).
             \<exists>r\<in>set rs. stamp (tf_header tf) = applyClockSkew (acquisition_time (shot r)) sk))"
proof -
  have alg: "applyClockSkew t skew = t - skew" "applyClockSkew t skew + skew = t"
    "applyClockSkew t 0 = t"
    by (simp_all add: applyClockSkew_def)
  have "stamps_corrected f sk (set rs) out"
    if "getImages d f rn (Inr rs) (Value sk) = Value out"
  proof -
    have "stamps_corrected f sk (set rs) \<lparr>res_images = Map.empty, res_transforms = []\<rparr>"
      by (simp add: stamps_corrected_def)
    from loop_stamps[OF _ this subset_refl] that show ?thesis
      by (simp add: getImages_Inr_Value)
  qed
  then show ?thesis using alg unfolding stamps_corrected_def by blast
qed


theorem C6_clock_skew_witness:
  "applyClockSkew 1000 50 + 50 = 1000
   \<and> applyClockSkew 1000 50 = 950
   \<and> (case getImages no_codec sample_registry ''spot'' (Inr [dup_first, dup_second]) (Value 50) of
         Value out \<Rightarrow>
           map_option (stamp \<circ> msg_header \<circ> iwc_image) (res_images out 1) = Some 950
           \<and> map_option (stamp \<circ> info_header \<circ> iwc_info) (res_images out 1) = Some 950
           \<and> map (stamp \<circ> tf_header) (res_transforms out) = [950, 950]
       | _ \<Rightarrow> False)"
proof -
  let ?G = "getImages no_codec sample_registry ''spot'' (Inr [dup_first, dup_second]) (Value 50)"
  obtain out where out: "?G = Value out" by (simp add: dup_batch)
  have acq: "\<forall>r\<in>set [dup_first, dup_second]. acquisition_time (shot r) = 1000"
    by (simp add: dup_first_def dup_second_def sample_response_def sample_capture_def)
  note inst = C6_clock_skew [where t = 1000 and skew = 50 and d = no_codec
      and f = sample_registry and rn = "''spot''" and rs = "[dup_first, dup_second]"
      and sk = 50 and out = out]
  from inst have alg: "applyClockSkew 1000 50 + 50 = 1000" "applyClockSkew 1000 50 = 950"
    by simp_all
  from out obtain iwc where iwc: "res_images out 1 = Some iwc"
    by (auto simp: dup_batch)
  from inst out iwc acq have
    "stamp (msg_header (iwc_image iwc)) = applyClockSkew 1000 50
     \<and> stamp (info_header (iwc_info iwc)) = applyClockSkew 1000 50"
    by fastforce
  with alg have images: "stamp (msg_header (iwc_image iwc)) = 950"
    "stamp (info_header (iwc_info iwc)) = 950" by simp_all
  from inst out acq have "\<forall>tf\<in>set (res_transforms out). stamp (tf_header tf) = applyClockSkew 1000 50"
    by fastforce
  moreover from out obtain a b where "res_transforms out = [a, b]"
    by (auto simp: dup_batch)
  ultimately have tfs: "map (stamp \<circ> tf_header) (res_transforms out) = [950, 950]"
    using alg(2) by simp
  from alg images tfs iwc show ?thesis by (simp add: out)
qed

subsection \<open>Decoding one image\<close>

lemma toImageMsg_unknown_pixel_format:
  "img_pixel_format (image cap) \<notin> supported_pixel_formats \<Longrightarrow>
   toImageMsg d cap rn sk = Unexpected ''Failed to determine pixel format: Unknown pixel format.''"
  by (simp add: toImageMsg_def Let_def getCvPixelFormat_unsupported)

lemma toImageMsg_jpeg:
  "img_format (image cap) = FORMAT_JPEG \<Longrightarrow> getCvPixelFormat (img_pixel_format (image cap)) = Value t \<Longrightarrow>
   toImageMsg d cap rn sk =
     (case imdecode d (Mat_over 1 (img_rows (image cap) * img_cols (image cap)) CV_8UC1
                         (address_of_front (img_data (image cap)))) of
        Unexpected e \<Rightarrow> Unexpected e
      | ReadPastPayload \<Rightarrow> ReadPastPayload
      | Value img_bgr \<Rightarrow>
          if mat_data img_bgr = None then Unexpected ''Failed to decode JPEG-compressed image.''
          else CvImage_toImageMsg
                 \<lparr>stamp = applyClockSkew (acquisition_time cap) sk,
                  frame_id = sensor_frame_id rn (frame_name_image_sensor cap)\<rparr> ''bgr8'' img_bgr)"
  by (simp add: toImageMsg_def Let_def)

lemma imdecode_type:
  "imdecode d buf = Value m \<Longrightarrow> mat_data m \<noteq> None \<Longrightarrow> mat_type m = CV_8UC3"
  by (auto simp: imdecode_def Mat_over_def split: option.splits)

lemma CvImage_toImageMsg_step:
  "CvImage_toImageMsg h enc m = Value im \<Longrightarrow>
   msg_step im = mat_cols m * elemSize (mat_type m) \<and> msg_width im = mat_cols m
   \<and> msg_height im = mat_rows m"
  by (auto simp: CvImage_toImageMsg_def split: option.splits)

lemma toImageMsg_jpeg_bgr8:
  assumes j: "img_format (image cap) = FORMAT_JPEG" and v: "toImageMsg d cap rn sk = Value im"
  shows "msg_encoding im = ''bgr8'' \<and> msg_step im = msg_width im * 3"
proof -
  from v obtain t where t: "getCvPixelFormat (img_pixel_format (image cap)) = Value t"
    by (auto simp: toImageMsg_def Let_def split: expected.splits)
  from v obtain m where m: "imdecode d (Mat_over 1 (img_rows (image cap) * img_cols (image cap)) CV_8UC1
                         (address_of_front (img_data (image cap)))) = Value m"
    and nn: "mat_data m \<noteq> None"
    and c: "CvImage_toImageMsg
                 \<lparr>stamp = applyClockSkew (acquisition_time cap) sk,
                  frame_id = sensor_frame_id rn (frame_name_image_sensor cap)\<rparr> ''bgr8'' m = Value im"
    unfolding toImageMsg_jpeg[OF j t] by (auto split: expected.splits if_splits)
  from imdecode_type[OF m nn] CvImage_toImageMsg_step[OF c] CvImage_toImageMsg_header[OF c]
  show ?thesis by (simp add: elemSize_values)
qed

text \<open>
  C9. toImageMsg resolves the pixel format before it looks at the encoding: an
  entry whose pixel format is none of the five fails with the pixel-format
  error whatever its encoding, JPEG included. Yet on the JPEG path the resolved
  layout plays no part: two entries that differ only in their (supported) pixel
  format give the same result, and a result is always labelled bgr8 with three
  bytes per pixel.
\<close>

theorem C9_pixel_format_before_encoding:
  "(img_pixel_format (image cap) \<notin> supported_pixel_formats \<longrightarrow>
      toImageMsg d cap rn sk = Unexpected ''Failed to determine pixel format: Unknown pixel format.'')
   \<and> (img_format (image cap) = FORMAT_JPEG \<and> pf \<in> supported_pixel_formats
        \<and> pf' \<in> supported_pixel_formats \<longrightarrow>
      toImageMsg d (cap\<lparr>image := (image cap)\<lparr>img_pixel_format := pf\<rparr>\<rparr>) rn sk =
      toImageMsg d (cap\<lparr>image := (image cap)\<lparr>img_pixel_format := pf'\<rparr>\<rparr>) rn sk)
   \<and> (img_format (image cap) = FORMAT_JPEG \<and> toImageMsg d cap rn sk = Value im \<longrightarrow>
      msg_encoding im = ''bgr8'' \<and> msg_step im = msg_width im * 3)"
proof -
  have one: "toImageMsg d cap rn sk = Unexpected ''Failed to determine pixel format: Unknown pixel format.''"
    if "img_pixel_format (image cap) \<notin> supported_pixel_formats"
    using that by (rule toImageMsg_unknown_pixel_format)
  have two: "toImageMsg d (cap\<lparr>image := (image cap)\<lparr>img_pixel_format := pf\<rparr>\<rparr>) rn sk =
      toImageMsg d (cap\<lparr>image := (image cap)\<lparr>img_pixel_format := pf'\<rparr>\<rparr>) rn sk"
    if a: "img_format (image cap) = FORMAT_JPEG \<and> pf \<in> supported_pixel_formats
        \<and> pf' \<in> supported_pixel_formats"
  proof -
    from a obtain t where t: "getCvPixelFormat pf = Value t"
      using getCvPixelFormat_supported by blast
    from a obtain t' where t': "getCvPixelFormat pf' = Value t'"
      using getCvPixelFormat_supported by blast
    from a t t' show ?thesis
      by (simp add: toImageMsg_jpeg cong: expected.case_cong if_cong)
  qed
  have three: "msg_encoding im = ''bgr8'' \<and> msg_step im = msg_width im * 3"
    if "img_format (image cap) = FORMAT_JPEG \<and> toImageMsg d cap rn sk = Value im"
    using that toImageMsg_jpeg_bgr8 by blast
  from one two three show ?thesis by blast
qed

theorem C9_pixel_format_before_encoding_witness:
  "img_format (image (sample_capture (jpeg_4 PIXEL_FORMAT_UNKNOWN) [])) = FORMAT_JPEG
   \<and> img_pixel_format (image (sample_capture (jpeg_4 PIXEL_FORMAT_UNKNOWN) [])) \<notin> supported_pixel_formats
   \<and> toImageMsg one_pixel_codec (sample_capture (jpeg_4 PIXEL_FORMAT_UNKNOWN) []) ''spot'' 50 =
       Unexpected ''Failed to determine pixel format: Unknown pixel format.''
   \<and> toImageMsg one_pixel_codec (sample_capture (jpeg_4 PIXEL_FORMAT_DEPTH_U16) []) ''spot'' 50 =
       toImageMsg one_pixel_codec (sample_capture (jpeg_4 PIXEL_FORMAT_RGB_U8) []) ''spot'' 50
   \<and> toImageMsg one_pixel_codec (sample_capture (jpeg_4 PIXEL_FORMAT_DEPTH_U16) []) ''spot'' 50 =
       Value \<lparr>msg_header = \<lparr>stamp = 950, frame_id = ''spot/cam''\<rparr>, msg_height = 1, msg_width = 1,
              msg_encoding = ''bgr8'', msg_step = 3, msg_data = ''BGR''\<rparr>"
proof -
  let ?cap = "sample_capture (jpeg_4 PIXEL_FORMAT_UNKNOWN) []"
  have upd: "?cap\<lparr>image := (image ?cap)\<lparr>img_pixel_format := pf\<rparr>\<rparr> = sample_capture (jpeg_4 pf) []"
    for pf by (simp add: sample_defs)
  have j: "img_format (image ?cap) = FORMAT_JPEG" by (simp add: sample_defs)
  have u: "img_pixel_format (image ?cap) \<notin> supported_pixel_formats"
    by (simp add: sample_defs supported_pixel_formats_def)
  have s: "PIXEL_FORMAT_DEPTH_U16 \<in> supported_pixel_formats"
    "PIXEL_FORMAT_RGB_U8 \<in> supported_pixel_formats"
    by (simp_all add: supported_pixel_formats_def)
  note inst = C9_pixel_format_before_encoding [where cap = ?cap and d = one_pixel_codec
      and rn = "''spot''" and sk = 50 and pf = PIXEL_FORMAT_DEPTH_U16 and pf' = PIXEL_FORMAT_RGB_U8]
  from inst u have one: "toImageMsg one_pixel_codec ?cap ''spot'' 50 =
       Unexpected ''Failed to determine pixel format: Unknown pixel format.''"
    by blast
  from inst j s have two: "toImageMsg one_pixel_codec (sample_capture (jpeg_4 PIXEL_FORMAT_DEPTH_U16) []) ''spot'' 50 =
       toImageMsg one_pixel_codec (sample_capture (jpeg_4 PIXEL_FORMAT_RGB_U8) []) ''spot'' 50"
    by (simp add: upd)
  have three: "toImageMsg one_pixel_codec (sample_capture (jpeg_4 PIXEL_FORMAT_DEPTH_U16) []) ''spot'' 50 =
       Value \<lparr>msg_header = \<lparr>stamp = 950, frame_id = ''spot/cam''\<rparr>, msg_height = 1, msg_width = 1,
              msg_encoding = ''bgr8'', msg_step = 3, msg_data = ''BGR''\<rparr>"
    by (simp add: sample_defs image_defs)
  from j u one two three show ?thesis by blast
qed

lemma toImageMsg_raw:
  assumes raw: "img_format (image cap) = FORMAT_RAW"
    and t: "getCvPixelFormat (img_pixel_format (image cap)) = Value t"
  shows "toImageMsg d cap rn sk =
     (if img_cols (image cap) * elemSize t * img_rows (image cap)
           \<le> length (img_data (image cap)) + 1
      then Value \<lparr>msg_header = \<lparr>stamp = applyClockSkew (acquisition_time cap) sk,
                                frame_id = sensor_frame_id rn (frame_name_image_sensor cap)\<rparr>,
                  msg_height = img_rows (image cap),
                  msg_width = img_cols (image cap),
                  msg_encoding = ''16UC1'',
                  msg_step = img_cols (image cap) * elemSize t,
                  msg_data = take (img_cols (image cap) * elemSize t * img_rows (image cap))
                               (img_data (image cap) @ [CHR 0x00])\<rparr>
      else ReadPastPayload)"
  by (simp add: toImageMsg_def Let_def raw t CvImage_toImageMsg_def Mat_over_def
      address_of_front_def read_bytes_def mat_size_bytes_def TYPE_16UC1_def)

text \<open>
  C3, as stated, fails: a 1 x 1 raw RGB-8 entry (three channels of 8 bits) is
  not refused. It comes back as a message labelled 16UC1 with a step of three
  bytes.
\<close>

theorem C3_raw_rgb_counterexample:
  "img_format rgb_1x1 = FORMAT_RAW
   \<and> getCvPixelFormat (img_pixel_format rgb_1x1) = Value CV_8UC3
   \<and> CV_MAT_CN CV_8UC3 = 3 \<and> depth_bits (CV_MAT_DEPTH CV_8UC3) = 8
   \<and> toImageMsg no_codec (sample_capture rgb_1x1 []) ''spot'' 50 =
       Value \<lparr>msg_header = \<lparr>stamp = 950, frame_id = ''spot/cam''\<rparr>, msg_height = 1, msg_width = 1,
              msg_encoding = ''16UC1'', msg_step = 3, msg_data = ''RGB''\<rparr>"
  by (simp add: sample_defs image_defs layout_of_type_codes)

text \<open>
  C3, amended. A Raw-encoded entry with one of the five pixel formats never
  fails with an error, whatever its layout. When the payload holds at least
  rows * cols * (bytes per pixel of its format) bytes, the result is a message
  labelled 16UC1 whose step is cols * (bytes per pixel of its format) and whose
  data are the first rows * step bytes of the payload.
\<close>

theorem C3_raw_labelled_16UC1:
  "img_format (image cap) = FORMAT_RAW \<and> getCvPixelFormat (img_pixel_format (image cap)) = Value t \<longrightarrow>
     (\<forall>e. toImageMsg d cap rn sk \<noteq> Unexpected e)
     \<and> (img_cols (image cap) * elemSize t * img_rows (image cap) \<le> length (img_data (image cap)) \<longrightarrow>
          toImageMsg d cap rn sk =
            Value \<lparr>msg_header = \<lparr>stamp = applyClockSkew (acquisition_time cap) sk,
                                  frame_id = sensor_frame_id rn (frame_name_image_sensor cap)\<rparr>,
                   msg_height = img_rows (image cap),
                   msg_width = img_cols (image cap),
                   msg_encoding = ''16UC1'',
                   msg_step = img_cols (image cap) * elemSize t,
                   msg_data = take (img_cols (image cap) * elemSize t * img_rows (image cap))
                                (img_data (image cap))\<rparr>)"
  by (simp add: toImageMsg_raw)

theorem C3_raw_labelled_16UC1_witness:
  "img_format (image (sample_capture grey_2x1 [])) = FORMAT_RAW
   \<and> getCvPixelFormat (img_pixel_format (image (sample_capture grey_2x1 []))) = Value CV_8UC1
   \<and> toImageMsg no_codec (sample_capture grey_2x1 []) ''spot'' 50 =
       Value \<lparr>msg_header = \<lparr>stamp = 950, frame_id = ''spot/cam''\<rparr>, msg_height = 2, msg_width = 1,
              msg_encoding = ''16UC1'', msg_step = 1, msg_data = ''GH''\<rparr>"
proof -
  let ?cap = "sample_capture grey_2x1 []"
  have raw: "img_format (image ?cap) = FORMAT_RAW" by (simp add: sample_defs grey_2x1_def)
  have t: "getCvPixelFormat (img_pixel_format (image ?cap)) = Value CV_8UC1"
    by (simp add: sample_defs grey_2x1_def)
  have fits: "img_cols (image ?cap) * elemSize CV_8UC1 * img_rows (image ?cap)
      \<le> length (img_data (image ?cap))"
    by (simp add: sample_defs grey_2x1_def elemSize_values)
  from C3_raw_labelled_16UC1 [where cap = ?cap and t = CV_8UC1 and d = no_codec
      and rn = "''spot''" and sk = 50] raw t fits
  have "toImageMsg no_codec ?cap ''spot'' 50 =
            Value \<lparr>msg_header = \<lparr>stamp = applyClockSkew (acquisition_time ?cap) 50,
                                  frame_id = sensor_frame_id ''spot'' (frame_name_image_sensor ?cap)\<rparr>,
                   msg_height = img_rows (image ?cap),
                   msg_width = img_cols (image ?cap),
                   msg_encoding = ''16UC1'',
                   msg_step = img_cols (image ?cap) * elemSize CV_8UC1,
                   msg_data = take (img_cols (image ?cap) * elemSize CV_8UC1 * img_rows (image ?cap))
                                (img_data (image ?cap))\<rparr>"
    by blast
  then have "toImageMsg no_codec ?cap ''spot'' 50 =
       Value \<lparr>msg_header = \<lparr>stamp = 950, frame_id = ''spot/cam''\<rparr>, msg_height = 2, msg_width = 1,
              msg_encoding = ''16UC1'', msg_step = 1, msg_data = ''GH''\<rparr>"
    by (simp add: sample_defs grey_2x1_def elemSize_values applyClockSkew_def sensor_frame_id_def)
  with raw t show ?thesis by blast
qed

text \<open>
  C2. A 1 x 1 raw depth entry with its two bytes decodes. With one byte (one
  less than rows * cols * 2) toImageMsg does not return the decode error: the
  null check on the data pointer passes, the copy of two bytes takes the
  payload's byte and the terminator of the string behind it, and a message
  with these two bytes is returned. With no byte at all there is no decode
  error either: the copy of two bytes runs past the end of the string.
\<close>

theorem C2_raw_depth_payload_sizes:
  "toImageMsg no_codec (sample_capture depth_1x1 []) ''spot'' 50 =
       Value \<lparr>msg_header = \<lparr>stamp = 950, frame_id = ''spot/cam''\<rparr>, msg_height = 1, msg_width = 1,
              msg_encoding = ''16UC1'', msg_step = 2, msg_data = ''AB''\<rparr>
   \<and> img_rows depth_1x1_short * img_cols depth_1x1_short * 2 - 1 = length (img_data depth_1x1_short)
   \<and> toImageMsg no_codec (sample_capture depth_1x1_short []) ''spot'' 50 =
       Value \<lparr>msg_header = \<lparr>stamp = 950, frame_id = ''spot/cam''\<rparr>, msg_height = 1, msg_width = 1,
              msg_encoding = ''16UC1'', msg_step = 2, msg_data = [CHR ''A'', CHR 0x00]\<rparr>
   \<and> toImageMsg no_codec (sample_capture depth_1x1_short []) ''spot'' 50
       \<noteq> Unexpected ''Failed to decode raw-formatted image.''
   \<and> img_data depth_1x1_empty = []
   \<and> toImageMsg no_codec (sample_capture depth_1x1_empty []) ''spot'' 50 = ReadPastPayload
   \<and> toImageMsg no_codec (sample_capture depth_1x1_empty []) ''spot'' 50
       \<noteq> Unexpected ''Failed to decode raw-formatted image.''"
  by (simp add: sample_defs image_defs)

subsection \<open>The kinematic service callback\<close>

lemma callback_frame:
  "deref (fst (service_callback cr gs cv st request response)) p = deref st p"
  by (auto simp: service_callback_def Let_def make_shared_def release_def deref_def nth_append
      split: expected.splits)


text \<open>
  C10. service_callback leaves the message behind the caller's response pointer
  as it was, and every other cell of the store too: the converted message is
  put at a fresh address, only the callback's own copy of the pointer is moved
  to it, and it is destroyed when the callback returns. The same holds when the
  kinematic interface fails and the callback throws.
\<close>

theorem C10_response_unmodified:
  "deref (fst (service_callback convert_request get_solutions convert_response st request response))
     response = deref st response
   \<and> (\<forall>p. deref (fst (service_callback convert_request get_solutions convert_response
                        st request response)) p = deref st p)"
  by (simp add: callback_frame)

theorem C10_response_unmodified_witness:
  "deref sample_store 0 = Some 7
   \<and> service_callback Suc solver_ok Suc sample_store 1 0 =
       (\<lparr>heap = [Some 7, None], logged = []\<rparr>, Returned)
   \<and> deref (fst (service_callback Suc solver_ok Suc sample_store 1 0)) 0 = Some 7
   \<and> service_callback Suc solver_fails Suc sample_store 1 0 =
       (\<lparr>heap = [Some 7],
         logged = [''Error searching for an InverseKinematic solution: no solution'']\<rparr>,
        Threw_bad_expected_access)
   \<and> deref (fst (service_callback Suc solver_fails Suc sample_store 1 0)) 0 = Some 7"
proof -
  have d: "deref sample_store 0 = Some 7" by (simp add: deref_def sample_store_def)
  have ok: "service_callback Suc solver_ok Suc sample_store 1 0 =
       (\<lparr>heap = [Some 7, None], logged = []\<rparr>, Returned)"
    by (simp add: service_callback_def solver_ok_def sample_store_def make_shared_def release_def)
  have bad: "service_callback Suc solver_fails Suc sample_store 1 0 =
       (\<lparr>heap = [Some 7],
         logged = [''Error searching for an InverseKinematic solution: no solution'']\<rparr>,
        Threw_bad_expected_access)"
    by (simp add: service_callback_def solver_fails_def sample_store_def)
  from C10_response_unmodified [of Suc solver_ok Suc sample_store 1 0] d
  have a: "deref (fst (service_callback Suc solver_ok Suc sample_store 1 0)) 0 = Some 7"
    by simp
  from C10_response_unmodified [of Suc solver_fails Suc sample_store 1 0] d
  have b: "deref (fst (service_callback Suc solver_fails Suc sample_store 1 0)) 0 = Some 7"
    by simp
  from d ok bad a b show ?thesis by blast
qed

end
